theory Spec2Isabelle
  imports Main "HOL-Library.Sublist"
begin

section \<open>Strings\<close>

text \<open>
  A JavaScript string is modelled as a \<^typ>\<open>string\<close> whose characters are the code
  units \<open>0 .. 255\<close> (ASCII and Latin-1). On that range \<open>String.prototype.toLowerCase\<close>
  maps \<open>A .. Z\<close> and the letters \<open>U+00C0 .. U+00DE\<close> (without the multiplication sign
  \<open>U+00D7\<close>) to the code unit 32 above, and leaves every other code unit alone.
\<close>

definition toLowerCase_char :: "char \<Rightarrow> char" where
  "toLowerCase_char c =
     (let n = (of_char c :: nat)
      in if (65 \<le> n \<and> n \<le> 90) \<or> (192 \<le> n \<and> n \<le> 222 \<and> n \<noteq> 215)
         then char_of (n + 32) else c)"

definition toLowerCase :: "string \<Rightarrow> string" where
  "toLowerCase s = map toLowerCase_char s"

text \<open>\<open>text.includes(pat)\<close>: \<open>pat\<close> occurs in \<open>text\<close> as a contiguous run.\<close>

definition str_includes :: "string \<Rightarrow> string \<Rightarrow> bool" where
  "str_includes text pat = sublist pat text"

text \<open>
  \<open>s.replace('@', '')\<close> with a string pattern removes the first occurrence only.
\<close>

definition replace_first_at :: "string \<Rightarrow> string" where
  "replace_first_at s = remove1 (CHR ''@'') s"

text \<open>
  The regular expressions of the source all have one of three shapes: an alternation of
  literals anchored at the end (\<open>/(a|b)$/\<close>), a literal anchored at the start
  (\<open>/^lit/\<close>) or an unanchored literal (\<open>/lit/\<close>), each with or without the flag
  \<open>i\<close>. A pattern is kept as the list of the literals it accepts, its anchor and its
  flag; \<open>/\\.min\\.(js|css)$/\<close> accepts \<open>.min.js\<close> and \<open>.min.css\<close> at the end.
  Without the flag \<open>m\<close> the anchor \<open>$\<close> is the end of the input only. The literals
  are written in lower case in the source wherever the flag \<open>i\<close> is set and contain
  ASCII only, so that the flag amounts to comparing the literal with the lower-cased
  input: no code unit outside ASCII is canonicalised to an ASCII letter.
\<close>

datatype anchor = AtEnd | AtStart | Anywhere

record regex =
  alternatives :: "string list"
  anchored :: anchor
  ignoreCase :: bool

definition regex_test :: "regex \<Rightarrow> string \<Rightarrow> bool" where
  "regex_test r s =
     (let subject = (if ignoreCase r then toLowerCase s else s)
      in list_ex
           (\<lambda>lit. case anchored r of
                    AtEnd \<Rightarrow> suffix lit subject
                  | AtStart \<Rightarrow> prefix lit subject
                  | Anywhere \<Rightarrow> sublist lit subject)
           (alternatives r))"

text \<open>\<open>Array.prototype.join\<close> on an array of strings.\<close>

fun join :: "string \<Rightarrow> string list \<Rightarrow> string" where
  "join sep [] = ''''"
| "join sep [x] = x"
| "join sep (x # y # ys) = x @ sep @ join sep (y # ys)"

section \<open>Data model (src/gitlab/types)\<close>

record GitLabUser =
  user_id :: int
  username :: string
  name :: "string option"

record GitLabProject =
  project_id :: int
  path_with_namespace :: string

record GitLabLabel =
  label_id :: int
  label_title :: string
  color :: string

text \<open>The note as it is attached to a trigger result (\<open>GitLabNote\<close>).\<close>

record GitLabNote =
  note_id :: int
  body :: string
  author :: GitLabUser
  created_at :: string
  updated_at :: string
  system :: bool
  noteable_type :: string
  noteable_id :: int

text \<open>
  \<open>object_attributes\<close> of a note event; the field \<open>note\<close> of the source is
  \<open>na_note\<close> here.
\<close>

record NoteAttributes =
  na_id :: int
  na_note :: string
  na_noteable_type :: string
  na_noteable_id :: int
  na_created_at :: string
  na_updated_at :: string
  na_system :: bool

text \<open>
  Of an issue and of a merge request the classifier reads \<open>iid\<close>, \<open>title\<close>,
  \<open>description\<close> (which the classifier guards with \<open>|| ''\<close>, so it may be missing) and
  \<open>state\<close> (a plain string at run time).
\<close>

record GitLabIssue =
  issue_iid :: int
  issue_title :: string
  issue_description :: "string option"
  issue_state :: string

record GitLabMergeRequest =
  mr_iid :: int
  mr_title :: string
  mr_description :: "string option"
  mr_state :: string

text \<open>
  The tagged union \<open>GitLabWebhookEvent\<close>: the tag \<open>object_kind\<close> together with the
  kind-specific \<open>object_attributes\<close> (and, on a note event, the optional \<open>issue\<close> and
  \<open>merge_request\<close>) is one constructor of \<open>event_payload\<close>.
\<close>

datatype event_payload =
    NoteEvent NoteAttributes "GitLabIssue option" "GitLabMergeRequest option"
  | IssueEvent GitLabIssue
  | MergeRequestEvent GitLabMergeRequest
  | PushEvent
  | TagPushEvent

record GitLabWebhookEvent =
  user :: GitLabUser
  project :: GitLabProject
  assignees :: "GitLabUser list option"
  labels :: "GitLabLabel list option"
  payload :: event_payload

record GitLabActionConfig =
  triggerPhrase :: string
  assigneeTrigger :: "string option"
  labelTrigger :: "string option"

datatype trigger_type = Comment | Assignee | Label | Direct

datatype resource_type = Issue | MergeRequest

record TriggerResult =
  shouldTrigger :: bool
  triggerType :: "trigger_type option"
  resourceType :: "resource_type option"
  resourceId :: "int option"
  projectId :: "int option"
  triggeredBy :: "GitLabUser option"
  triggerComment :: "GitLabNote option"

section \<open>Trigger classification (src/gitlab/validation/trigger.ts)\<close>

definition botPatterns :: "regex list" where
  "botPatterns =
     [\<lparr>alternatives = [''bot''], anchored = AtEnd, ignoreCase = True\<rparr>,
      \<lparr>alternatives = [''[bot]''], anchored = AtEnd, ignoreCase = True\<rparr>,
      \<lparr>alternatives = [''gitlab-''], anchored = AtStart, ignoreCase = True\<rparr>,
      \<lparr>alternatives = [''github-''], anchored = AtStart, ignoreCase = True\<rparr>,
      \<lparr>alternatives = [''service''], anchored = AtEnd, ignoreCase = True\<rparr>,
      \<lparr>alternatives = [''automation''], anchored = AtEnd, ignoreCase = True\<rparr>]"

definition isBotUser :: "GitLabUser \<Rightarrow> bool" where
  "isBotUser u =
     (list_ex (\<lambda>pattern. regex_test pattern (username u)) botPatterns \<or>
      list_ex (\<lambda>pattern. regex_test pattern (case name u of Some n \<Rightarrow> n | None \<Rightarrow> ''''))
        botPatterns)"

definition containsTriggerPhrase :: "GitLabActionConfig \<Rightarrow> string \<Rightarrow> bool" where
  "containsTriggerPhrase cfg text =
     (if text = '''' then False
      else
        let normalizedText = toLowerCase text;
            normalizedPhrase = toLowerCase (triggerPhrase cfg)
        in str_includes normalizedText normalizedPhrase \<or>
           str_includes normalizedText (''@'' @ replace_first_at normalizedPhrase))"

text \<open>
  \<open>this.config.assigneeTrigger && event.assignees\<close> followed by \<open>some\<close>: an empty string
  is falsy, an array (even an empty one) is truthy.
\<close>

definition hasAssigneeTrigger :: "GitLabActionConfig \<Rightarrow> GitLabWebhookEvent \<Rightarrow> bool" where
  "hasAssigneeTrigger cfg event =
     (case assigneeTrigger cfg of
        None \<Rightarrow> False
      | Some t \<Rightarrow>
          (if t = '''' then False
           else case assignees event of
                  None \<Rightarrow> False
                | Some us \<Rightarrow> list_ex (\<lambda>assignee. username assignee = t) us))"

definition hasLabelTrigger :: "GitLabActionConfig \<Rightarrow> GitLabWebhookEvent \<Rightarrow> bool" where
  "hasLabelTrigger cfg event =
     (case labelTrigger cfg of
        None \<Rightarrow> False
      | Some t \<Rightarrow>
          (if t = '''' then False
           else case labels event of
                  None \<Rightarrow> False
                | Some ls \<Rightarrow> list_ex (\<lambda>label. label_title label = t) ls))"

definition validateNoteEvent ::
  "GitLabActionConfig \<Rightarrow> GitLabWebhookEvent \<Rightarrow> NoteAttributes \<Rightarrow> GitLabIssue option \<Rightarrow>
   GitLabMergeRequest option \<Rightarrow> TriggerResult \<Rightarrow> TriggerResult" where
  "validateNoteEvent cfg event note issue merge_request result =
     (if na_system note then result
      else if containsTriggerPhrase cfg (na_note note) then
        let result1 = result
              \<lparr>shouldTrigger := True,
               triggerType := Some Comment,
               triggerComment := Some
                 \<lparr>note_id = na_id note, body = na_note note, author = user event,
                  created_at = na_created_at note, updated_at = na_updated_at note,
                  system = na_system note, noteable_type = na_noteable_type note,
                  noteable_id = na_noteable_id note\<rparr>\<rparr>
        in case (na_noteable_type note = ''Issue'', issue) of
             (True, Some i) \<Rightarrow>
               result1\<lparr>resourceType := Some Issue, resourceId := Some (issue_iid i)\<rparr>
           | _ \<Rightarrow>
              (case (na_noteable_type note = ''MergeRequest'', merge_request) of
                 (True, Some m) \<Rightarrow>
                   result1\<lparr>resourceType := Some MergeRequest, resourceId := Some (mr_iid m)\<rparr>
               | _ \<Rightarrow> result1)
      else result)"

definition validateIssueEvent ::
  "GitLabActionConfig \<Rightarrow> GitLabWebhookEvent \<Rightarrow> GitLabIssue \<Rightarrow> TriggerResult \<Rightarrow> TriggerResult"
  where
  "validateIssueEvent cfg event issue result =
     (if hasAssigneeTrigger cfg event then
        result\<lparr>shouldTrigger := True, triggerType := Some Assignee,
               resourceType := Some Issue, resourceId := Some (issue_iid issue)\<rparr>
      else if hasLabelTrigger cfg event then
        result\<lparr>shouldTrigger := True, triggerType := Some Label,
               resourceType := Some Issue, resourceId := Some (issue_iid issue)\<rparr>
      else if issue_state issue = ''opened'' then
        (let hasPhrase =
               (containsTriggerPhrase cfg (issue_title issue) \<or>
                containsTriggerPhrase cfg
                  (case issue_description issue of Some d \<Rightarrow> d | None \<Rightarrow> ''''))
         in if hasPhrase then
              result\<lparr>shouldTrigger := True, triggerType := Some Comment,
                     resourceType := Some Issue, resourceId := Some (issue_iid issue)\<rparr>
            else result)
      else result)"

definition validateMergeRequestEvent ::
  "GitLabActionConfig \<Rightarrow> GitLabWebhookEvent \<Rightarrow> GitLabMergeRequest \<Rightarrow> TriggerResult \<Rightarrow>
   TriggerResult" where
  "validateMergeRequestEvent cfg event mr result =
     (if hasAssigneeTrigger cfg event then
        result\<lparr>shouldTrigger := True, triggerType := Some Assignee,
               resourceType := Some MergeRequest, resourceId := Some (mr_iid mr)\<rparr>
      else if hasLabelTrigger cfg event then
        result\<lparr>shouldTrigger := True, triggerType := Some Label,
               resourceType := Some MergeRequest, resourceId := Some (mr_iid mr)\<rparr>
      else if mr_state mr = ''opened'' then
        (let hasPhrase =
               (containsTriggerPhrase cfg (mr_title mr) \<or>
                containsTriggerPhrase cfg
                  (case mr_description mr of Some d \<Rightarrow> d | None \<Rightarrow> ''''))
         in if hasPhrase then
              result\<lparr>shouldTrigger := True, triggerType := Some Comment,
                     resourceType := Some MergeRequest, resourceId := Some (mr_iid mr)\<rparr>
            else result)
      else result)"

definition validateTrigger :: "GitLabActionConfig \<Rightarrow> GitLabWebhookEvent \<Rightarrow> TriggerResult" where
  "validateTrigger cfg event =
     (let result =
            \<lparr>shouldTrigger = False, triggerType = None, resourceType = None,
             resourceId = None, projectId = Some (project_id (project event)),
             triggeredBy = Some (user event), triggerComment = None\<rparr>
      in if isBotUser (user event) then result
         else case payload event of
                NoteEvent note issue merge_request \<Rightarrow>
                  validateNoteEvent cfg event note issue merge_request result
              | IssueEvent issue \<Rightarrow> validateIssueEvent cfg event issue result
              | MergeRequestEvent mr \<Rightarrow> validateMergeRequestEvent cfg event mr result
              | PushEvent \<Rightarrow> result
              | TagPushEvent \<Rightarrow> result)"

text \<open>
  \<open>validateDirectTrigger\<close>: the caller's resource and project, verbatim
  (\<open>userId ? {...} : null\<close>: the number \<open>0\<close> is falsy).
\<close>

definition validateDirectTrigger ::
  "int \<Rightarrow> resource_type \<Rightarrow> int \<Rightarrow> string \<Rightarrow> int option \<Rightarrow> TriggerResult" where
  "validateDirectTrigger pid rtype rid prompt userId =
     \<lparr>shouldTrigger = True, triggerType = Some Direct, resourceType = Some rtype,
      resourceId = Some rid, projectId = Some pid,
      triggeredBy =
        (case userId of
           None \<Rightarrow> None
         | Some uid \<Rightarrow>
             if uid = 0 then None
             else Some \<lparr>user_id = uid, username = ''direct'', name = Some ''Direct Trigger''\<rparr>),
      triggerComment = None\<rparr>"

section \<open>The pipeline trigger and its JSON blob\<close>

text \<open>
  The values of JavaScript that \<open>JSON.parse\<close> can return, and \<open>undefined\<close>, which a
  missing property reads as. A string inside such a value is the list of its UTF-16
  code units, of any size, since an escape \<open>\uXXXX\<close> of the blob can name any of them;
  \<open>code_units\<close> is a literal of the source as such a list. The members of an object
  are kept in the order of the document.
\<close>

type_synonym js_string = "nat list"

definition code_units :: "string \<Rightarrow> js_string" where
  "code_units s = map of_char s"

text \<open>
  A number is a double: \<open>Finite negative m q\<close> is \<open>m * 2 ^ q\<close> with its sign, where
  \<open>m < 2 ^ 53\<close> and \<open>- 1074 \<le> q \<le> 971\<close>, and \<open>2 ^ 52 \<le> m\<close> unless \<open>q = - 1074\<close> (a
  subnormal); both zeros have \<open>m = 0\<close> and \<open>q = 0\<close>. There is no \<open>NaN\<close> in JSON.
\<close>

datatype js_number = Finite bool int int | Infinity bool

datatype js_value =
    JUndefined
  | JNull
  | JBool bool
  | JNumber js_number
  | JString js_string
  | JArray "js_value list"
  | JObject "(js_string \<times> js_value) list"

fun js_truthy :: "js_value \<Rightarrow> bool" where
  "js_truthy JUndefined = False"
| "js_truthy JNull = False"
| "js_truthy (JBool b) = b"
| "js_truthy (JNumber (Finite negative m q)) = (m \<noteq> 0)"
| "js_truthy (JNumber (Infinity negative)) = True"
| "js_truthy (JString s) = (s \<noteq> [])"
| "js_truthy (JArray xs) = True"
| "js_truthy (JObject kvs) = True"

text \<open>\<open>a || b\<close>\<close>

definition js_or :: "js_value \<Rightarrow> js_value \<Rightarrow> js_value" where
  "js_or a b = (if js_truthy a then a else b)"

datatype js_error = SyntaxError | TypeError

text \<open>
  \<open>data.key\<close> for the keys the pipeline trigger reads (\<open>triggerType\<close>,
  \<open>resourceType\<close>, \<open>resourceId\<close>, \<open>projectId\<close>, \<open>triggeredBy\<close>), none of which is a
  property that a prototype provides: reading a property of \<open>null\<close> or \<open>undefined\<close>
  throws a \<open>TypeError\<close>, an object answers with its own member (the last one of that
  name in the document) or \<open>undefined\<close>, every other value with \<open>undefined\<close>.
\<close>

fun get_property :: "js_value \<Rightarrow> string \<Rightarrow> js_error + js_value" where
  "get_property JUndefined key = Inl TypeError"
| "get_property JNull key = Inl TypeError"
| "get_property (JObject kvs) key =
     Inr (case map_of (rev kvs) (code_units key) of Some v \<Rightarrow> v | None \<Rightarrow> JUndefined)"
| "get_property v key = Inr JUndefined"

text \<open>
  The result of the pipeline trigger holds whatever the blob holds: the fields are
  values of JavaScript, not the types that \<open>TriggerResult\<close> declares.
\<close>

record PipelineTriggerResult =
  pt_shouldTrigger :: bool
  pt_triggerType :: js_value
  pt_resourceType :: js_value
  pt_resourceId :: js_value
  pt_projectId :: js_value
  pt_triggeredBy :: js_value

definition bind_error :: "js_error + 'a \<Rightarrow> ('a \<Rightarrow> js_error + 'b) \<Rightarrow> js_error + 'b" where
  "bind_error x f = (case x of Inl e \<Rightarrow> Inl e | Inr v \<Rightarrow> f v)"

text \<open>
  The body of the \<open>try\<close> block. \<open>JSON.parse\<close> is the built-in of the language and a
  parameter here: \<open>None\<close> is its \<open>SyntaxError\<close>.
\<close>

definition validatePipelineTrigger_try ::
  "(string \<Rightarrow> js_value option) \<Rightarrow> string \<Rightarrow> js_error + PipelineTriggerResult" where
  "validatePipelineTrigger_try JSON_parse triggerData =
     (case JSON_parse triggerData of
        None \<Rightarrow> Inl SyntaxError
      | Some data \<Rightarrow>
          bind_error (get_property data ''triggerType'') (\<lambda>tt.
          bind_error (get_property data ''resourceType'') (\<lambda>rt.
          bind_error (get_property data ''resourceId'') (\<lambda>rid.
          bind_error (get_property data ''projectId'') (\<lambda>pid.
          bind_error (get_property data ''triggeredBy'') (\<lambda>tb.
            Inr \<lparr>pt_shouldTrigger = True,
                 pt_triggerType = js_or tt (JString (code_units ''direct'')),
                 pt_resourceType = rt,
                 pt_resourceId = rid,
                 pt_projectId = pid,
                 pt_triggeredBy = js_or tb JNull\<rparr>))))))"

text \<open>
  \<open>validatePipelineTrigger\<close>: the \<open>try\<close> block with its \<open>catch\<close>, which answers every
  exception with the result that is null throughout. \<open>Inl\<close> would be an exception
  that leaves the function.
\<close>

definition validatePipelineTrigger ::
  "(string \<Rightarrow> js_value option) \<Rightarrow> string \<Rightarrow> js_error + PipelineTriggerResult" where
  "validatePipelineTrigger JSON_parse triggerData =
     (case validatePipelineTrigger_try JSON_parse triggerData of
        Inr r \<Rightarrow> Inr r
      | Inl error \<Rightarrow>
          Inr \<lparr>pt_shouldTrigger = False, pt_triggerType = JNull, pt_resourceType = JNull,
               pt_resourceId = JNull, pt_projectId = JNull, pt_triggeredBy = JNull\<rparr>)"

section \<open>Tool lists of the prompt assembler\<close>

definition DISALLOWED_TOOLS :: "string list" where
  "DISALLOWED_TOOLS = [''WebSearch'', ''WebFetch'']"

definition buildDisallowedToolsString ::
  "string list option \<Rightarrow> string list option \<Rightarrow> string" where
  "buildDisallowedToolsString customDisallowedTools allowedTools =
     (let disallowedTools =
            (case allowedTools of
               None \<Rightarrow> DISALLOWED_TOOLS
             | Some allowed \<Rightarrow>
                 if length allowed > 0
                 then filter (\<lambda>tool. tool \<notin> set allowed) DISALLOWED_TOOLS
                 else DISALLOWED_TOOLS);
          allDisallowedTools = join '','' disallowedTools
      in case customDisallowedTools of
           None \<Rightarrow> allDisallowedTools
         | Some custom \<Rightarrow>
             if length custom > 0 then
               (if allDisallowedTools \<noteq> ''''
                then allDisallowedTools @ '','' @ join '','' custom
                else join '','' custom)
             else allDisallowedTools)"

section \<open>Files of a merge request (src/gitlab/data/formatter.ts)\<close>

record GitLabDiff =
  old_path :: string
  new_path :: string
  new_file :: bool
  renamed_file :: bool
  deleted_file :: bool
  diff :: string

record GitLabFile =
  file_name :: string
  file_path :: string
  encoding :: string
  content :: "string option"

definition excludePatterns :: "regex list" where
  "excludePatterns =
     [\<lparr>alternatives =
         [''.png'', ''.jpg'', ''.jpeg'', ''.gif'', ''.ico'', ''.svg'', ''.pdf'', ''.zip'',
          ''.tar'', ''.gz'', ''.exe'', ''.bin'', ''.dll''],
       anchored = AtEnd, ignoreCase = True\<rparr>,
      \<lparr>alternatives = [''package-lock.json''], anchored = AtEnd, ignoreCase = False\<rparr>,
      \<lparr>alternatives = [''yarn.lock''], anchored = AtEnd, ignoreCase = False\<rparr>,
      \<lparr>alternatives = [''pnpm-lock.yaml''], anchored = AtEnd, ignoreCase = False\<rparr>,
      \<lparr>alternatives = [''Gemfile.lock''], anchored = AtEnd, ignoreCase = False\<rparr>,
      \<lparr>alternatives = [''composer.lock''], anchored = AtEnd, ignoreCase = False\<rparr>,
      \<lparr>alternatives = [''.min.js'', ''.min.css''], anchored = AtEnd, ignoreCase = False\<rparr>,
      \<lparr>alternatives = [''node_modules/''], anchored = Anywhere, ignoreCase = False\<rparr>,
      \<lparr>alternatives = [''.git/''], anchored = Anywhere, ignoreCase = False\<rparr>,
      \<lparr>alternatives = [''build/''], anchored = Anywhere, ignoreCase = False\<rparr>,
      \<lparr>alternatives = [''dist/''], anchored = Anywhere, ignoreCase = False\<rparr>]"

definition isRelevantFile :: "string \<Rightarrow> bool" where
  "isRelevantFile filePath =
     (\<not> list_ex (\<lambda>pattern. regex_test pattern filePath) excludePatterns)"

definition maxFiles :: nat where
  "maxFiles = 20"

definition relevantDiffs :: "GitLabDiff list \<Rightarrow> GitLabDiff list" where
  "relevantDiffs diffs =
     take maxFiles
       (filter (\<lambda>d. \<not> deleted_file d \<and> isRelevantFile (new_path d)) diffs)"

text \<open>
  \<open>if (file.content) file.content = Buffer.from(file.content, 'base64').toString('utf-8')\<close>:
  the decoder is the built-in of the platform and a parameter here; an empty content is
  falsy and stays.
\<close>

definition decode_content :: "(string \<Rightarrow> string) \<Rightarrow> GitLabFile \<Rightarrow> GitLabFile" where
  "decode_content base64_decode file =
     (case content file of
        None \<Rightarrow> file
      | Some c \<Rightarrow> if c = '''' then file else file\<lparr>content := Some (base64_decode c)\<rparr>)"

text \<open>
  The loop of \<open>fetchModifiedFiles\<close> over the relevant diffs, with the list \<open>files\<close>
  it pushes to. \<open>getFile pid path branch\<close> is the call of the repository client,
  \<open>Inl\<close> the error it throws, which the loop catches, logs and passes over.
\<close>

fun fetch_each ::
  "(int \<Rightarrow> string \<Rightarrow> string \<Rightarrow> string + GitLabFile) \<Rightarrow> (string \<Rightarrow> string) \<Rightarrow> int \<Rightarrow> string \<Rightarrow>
   GitLabDiff list \<Rightarrow> GitLabFile list \<Rightarrow> GitLabFile list" where
  "fetch_each getFile base64_decode pid branch [] files = files"
| "fetch_each getFile base64_decode pid branch (d # rest) files =
     (case getFile pid (new_path d) branch of
        Inl error \<Rightarrow> fetch_each getFile base64_decode pid branch rest files
      | Inr file \<Rightarrow>
          fetch_each getFile base64_decode pid branch rest
            (files @ [decode_content base64_decode file]))"

definition fetchModifiedFiles ::
  "(int \<Rightarrow> string \<Rightarrow> string \<Rightarrow> string + GitLabFile) \<Rightarrow> (string \<Rightarrow> string) \<Rightarrow> int \<Rightarrow>
   GitLabDiff list \<Rightarrow> string \<Rightarrow> GitLabFile list" where
  "fetchModifiedFiles getFile base64_decode pid diffs branch =
     fetch_each getFile base64_decode pid branch (relevantDiffs diffs) []"

section \<open>A model of \<open>JSON.parse\<close>\<close>

text \<open>
  The grammar of JSON (ECMA-404) as a recursive-descent parser: \<open>None\<close> is the
  \<open>SyntaxError\<close> of \<open>JSON.parse\<close>. The theorems on the pipeline trigger hold for every
  parser; this one instantiates them. The document is a \<^typ>\<open>string\<close>, so its own
  characters are code units below 256; the strings it denotes are not so bounded. The
  recursion is on a fuel that every call decreases; a chain of calls reads a character
  at every second call at least, so that \<open>JSON_parse\<close> starts with twice the length of
  the document.
\<close>

definition is_ws :: "char \<Rightarrow> bool" where
  "is_ws c = (c = CHR '' '' \<or> c = CHR 0x09 \<or> c = CHR 0x0A \<or> c = CHR 0x0D)"

definition skip_ws :: "string \<Rightarrow> string" where
  "skip_ws cs = dropWhile is_ws cs"

definition is_digit :: "char \<Rightarrow> bool" where
  "is_digit c = (let n = (of_char c :: nat) in 48 \<le> n \<and> n \<le> 57)"

definition digits_value :: "string \<Rightarrow> int" where
  "digits_value ds = foldl (\<lambda>acc d. 10 * acc + (of_char d - 48)) 0 ds"

definition hex_value :: "char \<Rightarrow> nat option" where
  "hex_value c =
     (let n = (of_char c :: nat)
      in if 48 \<le> n \<and> n \<le> 57 then Some (n - 48)
         else if 65 \<le> n \<and> n \<le> 70 then Some (n - 55)
         else if 97 \<le> n \<and> n \<le> 102 then Some (n - 87)
         else None)"

definition hex4 :: "char \<Rightarrow> char \<Rightarrow> char \<Rightarrow> char \<Rightarrow> nat option" where
  "hex4 a b c d =
     (case (hex_value a, hex_value b, hex_value c, hex_value d) of
        (Some w, Some x, Some y, Some z) \<Rightarrow> Some (((w * 16 + x) * 16 + y) * 16 + z)
      | _ \<Rightarrow> None)"

definition unescape :: "char \<Rightarrow> char option" where
  "unescape e =
     (if e = CHR 0x22 \<or> e = CHR 0x5C \<or> e = CHR ''/'' then Some e
      else if e = CHR ''b'' then Some (CHR 0x08)
      else if e = CHR ''f'' then Some (CHR 0x0C)
      else if e = CHR ''n'' then Some (CHR 0x0A)
      else if e = CHR ''r'' then Some (CHR 0x0D)
      else if e = CHR ''t'' then Some (CHR 0x09)
      else None)"

text \<open>The characters of a string after its opening quote, up to the closing one.\<close>

fun parse_string_chars :: "string \<Rightarrow> js_string \<Rightarrow> (js_string \<times> string) option" where
  "parse_string_chars [] acc = None"
| "parse_string_chars (c # cs) acc =
     (if c = CHR 0x22 then Some (acc, cs)
      else if c = CHR 0x5C then
        (case cs of
           [] \<Rightarrow> None
         | e # cs1 \<Rightarrow>
             if e = CHR ''u'' then
               (case cs1 of
                  h1 # h2 # h3 # h4 # cs2 \<Rightarrow>
                    (case hex4 h1 h2 h3 h4 of
                       None \<Rightarrow> None
                     | Some n \<Rightarrow> parse_string_chars cs2 (acc @ [n]))
                | _ \<Rightarrow> None)
             else
               (case unescape e of
                  None \<Rightarrow> None
                | Some x \<Rightarrow> parse_string_chars cs1 (acc @ [of_char x])))
      else if (of_char c :: nat) < 32 then None
      else parse_string_chars cs (acc @ [of_char c]))"

text \<open>
  The double nearest to the ratio \<open>n / d\<close> of two positive numbers, a tie going to the
  even significand. With \<open>t\<close> the difference of the bit lengths, the ratio lies
  between \<open>2 ^ (t - 1)\<close> and \<open>2 ^ (t + 1)\<close>; \<open>q\<close> is the exponent that puts the
  significand between \<open>2 ^ 52\<close> and \<open>2 ^ 53\<close>, and not below the exponent of the
  subnormals. A significand that rounds up to \<open>2 ^ 53\<close> moves to the next exponent, and
  an exponent above \<open>971\<close> is an overflow to infinity.
\<close>

function bit_length :: "int \<Rightarrow> int" where
  "bit_length n = (if n \<le> 0 then 0 else 1 + bit_length (n div 2))"
  by pat_completeness auto

termination
  by (relation "measure nat") auto

declare bit_length.simps [simp del]

definition round_ratio :: "bool \<Rightarrow> int \<Rightarrow> int \<Rightarrow> js_number" where
  "round_ratio negative n d =
     (let t = bit_length n - bit_length d;
          below = (if 0 \<le> t then n < d * 2 ^ nat t else n * 2 ^ nat (- t) < d);
          q = max (if below then t - 53 else t - 52) (- 1074);
          num = (if q < 0 then n * 2 ^ nat (- q) else n);
          den = (if q < 0 then d else d * 2 ^ nat q);
          fl = num div den;
          rm = num mod den;
          m = (if den < 2 * rm \<or> (2 * rm = den \<and> odd fl) then fl + 1 else fl);
          m1 = (if m = 2 ^ 53 then 2 ^ 52 else m);
          q1 = (if m = 2 ^ 53 then q + 1 else q)
      in if 971 < q1 then Infinity negative
         else if m1 = 0 then Finite negative 0 0
         else Finite negative m1 q1)"

text \<open>The double that the decimal \<open>m * 10 ^ e\<close> of a document denotes.\<close>

definition round_decimal :: "bool \<Rightarrow> int \<Rightarrow> int \<Rightarrow> js_number" where
  "round_decimal negative m e =
     (if m = 0 then Finite negative 0 0
      else if 0 \<le> e then round_ratio negative (m * 10 ^ nat e) 1
      else round_ratio negative m (10 ^ nat (- e)))"

text \<open>
  A number: \<open>-? (0 | [1-9][0-9]*) (.[0-9]+)? ([eE][+-]?[0-9]+)?\<close>. A digit after a
  leading \<open>0\<close> is a syntax error wherever the number stands, so it is refused here.
\<close>

definition parse_number :: "string \<Rightarrow> (js_value \<times> string) option" where
  "parse_number cs =
     (let negative = (cs \<noteq> [] \<and> hd cs = CHR ''-'');
          cs1 = (if negative then tl cs else cs);
          ip = takeWhile is_digit cs1;
          cs2 = dropWhile is_digit cs1;
          has_frac = (cs2 \<noteq> [] \<and> hd cs2 = CHR ''.'');
          fp = (if has_frac then takeWhile is_digit (tl cs2) else []);
          cs3 = (if has_frac then dropWhile is_digit (tl cs2) else cs2);
          has_exp = (cs3 \<noteq> [] \<and> (hd cs3 = CHR ''e'' \<or> hd cs3 = CHR ''E''));
          cs4 = (if has_exp then tl cs3 else cs3);
          exp_negative = (has_exp \<and> cs4 \<noteq> [] \<and> hd cs4 = CHR ''-'');
          exp_signed = (has_exp \<and> cs4 \<noteq> [] \<and> (hd cs4 = CHR ''-'' \<or> hd cs4 = CHR ''+''));
          cs5 = (if exp_signed then tl cs4 else cs4);
          ep = (if has_exp then takeWhile is_digit cs5 else []);
          cs6 = (if has_exp then dropWhile is_digit cs5 else cs3)
      in if ip = [] \<or> (1 < length ip \<and> hd ip = CHR ''0'') then None
         else if has_frac \<and> fp = [] then None
         else if has_exp \<and> ep = [] then None
         else Some
           (JNumber
              (round_decimal negative (digits_value (ip @ fp))
                 ((if exp_negative then - digits_value ep else digits_value ep) -
                  int (length fp))),
            cs6))"

fun parse_value :: "nat \<Rightarrow> string \<Rightarrow> (js_value \<times> string) option"
  and parse_elements ::
    "nat \<Rightarrow> string \<Rightarrow> js_value list \<Rightarrow> (js_value list \<times> string) option"
  and parse_members ::
    "nat \<Rightarrow> string \<Rightarrow> (js_string \<times> js_value) list \<Rightarrow>
     ((js_string \<times> js_value) list \<times> string) option"
  where
  "parse_value 0 cs = None"
| "parse_value (Suc fuel) cs =
     (case skip_ws cs of
        [] \<Rightarrow> None
      | c # rest \<Rightarrow>
          if c = CHR ''{'' then
            (case skip_ws rest of
               [] \<Rightarrow> None
             | c1 # rest1 \<Rightarrow>
                 if c1 = CHR ''}'' then Some (JObject [], rest1)
                 else (case parse_members fuel rest [] of
                         None \<Rightarrow> None
                       | Some (kvs, rest2) \<Rightarrow> Some (JObject kvs, rest2)))
          else if c = CHR ''['' then
            (case skip_ws rest of
               [] \<Rightarrow> None
             | c1 # rest1 \<Rightarrow>
                 if c1 = CHR '']'' then Some (JArray [], rest1)
                 else (case parse_elements fuel rest [] of
                         None \<Rightarrow> None
                       | Some (vs, rest2) \<Rightarrow> Some (JArray vs, rest2)))
          else if c = CHR 0x22 then
            (case parse_string_chars rest [] of
               None \<Rightarrow> None
             | Some (s, rest1) \<Rightarrow> Some (JString s, rest1))
          else if prefix ''true'' (c # rest) then Some (JBool True, drop 4 (c # rest))
          else if prefix ''false'' (c # rest) then Some (JBool False, drop 5 (c # rest))
          else if prefix ''null'' (c # rest) then Some (JNull, drop 4 (c # rest))
          else parse_number (c # rest))"
| "parse_elements 0 cs acc = None"
| "parse_elements (Suc fuel) cs acc =
     (case parse_value fuel cs of
        None \<Rightarrow> None
      | Some (v, rest) \<Rightarrow>
          (case skip_ws rest of
             [] \<Rightarrow> None
           | c # rest1 \<Rightarrow>
               if c = CHR '','' then parse_elements fuel rest1 (acc @ [v])
               else if c = CHR '']'' then Some (acc @ [v], rest1)
               else None))"
| "parse_members 0 cs acc = None"
| "parse_members (Suc fuel) cs acc =
     (case skip_ws cs of
        [] \<Rightarrow> None
      | q # rest \<Rightarrow>
          if q \<noteq> CHR 0x22 then None
          else
            (case parse_string_chars rest [] of
               None \<Rightarrow> None
             | Some (k, rest1) \<Rightarrow>
                 (case skip_ws rest1 of
                    [] \<Rightarrow> None
                  | colon # rest2 \<Rightarrow>
                      if colon \<noteq> CHR '':'' then None
                      else
                        (case parse_value fuel rest2 of
                           None \<Rightarrow> None
                         | Some (v, rest3) \<Rightarrow>
                             (case skip_ws rest3 of
                                [] \<Rightarrow> None
                              | c # rest4 \<Rightarrow>
                                  if c = CHR '','' then parse_members fuel rest4 (acc @ [(k, v)])
                                  else if c = CHR ''}'' then Some (acc @ [(k, v)], rest4)
                                  else None)))))"

definition JSON_parse :: "string \<Rightarrow> js_value option" where
  "JSON_parse s =
     (case parse_value (2 * length s + 2) s of
        None \<Rightarrow> None
      | Some (v, rest) \<Rightarrow> if skip_ws rest = [] then Some v else None)"

section \<open>The specification's wording\<close>

text \<open>
  The bot patterns as the specification lists them: suffix \<open>bot\<close>, suffix \<open>[bot]\<close>,
  prefix \<open>gitlab-\<close>, prefix \<open>github-\<close>, suffix \<open>service\<close>, suffix \<open>automation\<close>, all
  without regard to letter case.
\<close>

definition spec_bot_name_match :: "string \<Rightarrow> bool" where
  "spec_bot_name_match s =
     (let l = toLowerCase s
      in suffix ''bot'' l \<or> suffix ''[bot]'' l \<or> prefix ''gitlab-'' l \<or>
         prefix ''github-'' l \<or> suffix ''service'' l \<or> suffix ''automation'' l)"

text \<open>
  The deny-list as the specification resolves it: the base deny-list without the tools
  the caller allows, followed by the tools the caller disallows. A list the caller
  leaves out is the empty list.
\<close>

definition spec_resolved_deny_list :: "string list option \<Rightarrow> string list option \<Rightarrow> string list"
  where
  "spec_resolved_deny_list customDisallowedTools allowedTools =
     filter (\<lambda>tool. tool \<notin> set (case allowedTools of Some a \<Rightarrow> a | None \<Rightarrow> []))
       [''WebSearch'', ''WebFetch''] @
     (case customDisallowedTools of Some c \<Rightarrow> c | None \<Rightarrow> [])"

text \<open>
  The exclusion set as the patterns of \<open>isRelevantFile\<close> spell it out: the extension
  of a binary file in any letter case; the names of five lock files and the minified
  assets at the end of the path, and four directory segments anywhere in it, in the
  letter case written.
\<close>

definition spec_excluded_path :: "string \<Rightarrow> bool" where
  "spec_excluded_path p =
     ((\<exists>ext \<in> set [''png'', ''jpg'', ''jpeg'', ''gif'', ''ico'', ''svg'', ''pdf'', ''zip'',
                    ''tar'', ''gz'', ''exe'', ''bin'', ''dll''].
         suffix (''.'' @ ext) (toLowerCase p)) \<or>
      suffix ''package-lock.json'' p \<or> suffix ''yarn.lock'' p \<or>
      suffix ''pnpm-lock.yaml'' p \<or> suffix ''Gemfile.lock'' p \<or>
      suffix ''composer.lock'' p \<or> suffix ''.min.js'' p \<or> suffix ''.min.css'' p \<or>
      sublist ''node_modules/'' p \<or> sublist ''.git/'' p \<or> sublist ''build/'' p \<or>
      sublist ''dist/'' p)"

text \<open>
  A field is taken verbatim from the members of an object: it is \<open>undefined\<close> when the
  object has no member of that name, and the value of the last member of that name
  otherwise.
\<close>

definition spec_taken_verbatim :: "(js_string \<times> js_value) list \<Rightarrow> string \<Rightarrow> js_value \<Rightarrow> bool"
  where
  "spec_taken_verbatim kvs key field \<longleftrightarrow>
     (code_units key \<notin> fst ` set kvs \<longrightarrow> field = JUndefined) \<and>
     (\<forall>pre v post. kvs = pre @ (code_units key, v) # post \<and> code_units key \<notin> fst ` set post
        \<longrightarrow> field = v)"

text \<open>
  The trigger type of the result: the one of the blob, and \<open>direct\<close> when the blob has
  none or has one that \<open>||\<close> passes over (\<open>null\<close>, \<open>false\<close>, a zero, the empty string).
\<close>

definition spec_or_direct :: "js_value \<Rightarrow> js_value" where
  "spec_or_direct tt =
     (case tt of
        JUndefined \<Rightarrow> JString (code_units ''direct'')
      | JNull \<Rightarrow> JString (code_units ''direct'')
      | JBool b \<Rightarrow> if b then tt else JString (code_units ''direct'')
      | JNumber n \<Rightarrow>
          (case n of
             Finite negative m q \<Rightarrow> if m = 0 then JString (code_units ''direct'') else tt
           | Infinity negative \<Rightarrow> tt)
      | JString s \<Rightarrow> if s = [] then JString (code_units ''direct'') else tt
      | JArray xs \<Rightarrow> tt
      | JObject kvs \<Rightarrow> tt)"

section \<open>Sample inputs\<close>

definition example_config :: GitLabActionConfig where
  "example_config =
     \<lparr>triggerPhrase = ''@claude'', assigneeTrigger = Some ''claude'',
      labelTrigger = Some ''claude''\<rparr>"

definition example_human :: GitLabUser where
  "example_human = \<lparr>user_id = 7, username = ''alice'', name = Some ''Alice Example''\<rparr>"

definition example_assignee :: GitLabUser where
  "example_assignee = \<lparr>user_id = 8, username = ''claude'', name = Some ''Claude''\<rparr>"

definition example_bot :: GitLabUser where
  "example_bot = \<lparr>user_id = 9, username = ''Renovate-Bot'', name = None\<rparr>"

definition example_named_bot :: GitLabUser where
  "example_named_bot =
     \<lparr>user_id = 10, username = ''deploy'', name = Some ''Release Automation''\<rparr>"

definition example_project :: GitLabProject where
  "example_project = \<lparr>project_id = 42, path_with_namespace = ''group/app''\<rparr>"

definition example_label :: GitLabLabel where
  "example_label = \<lparr>label_id = 3, label_title = ''claude'', color = ''#ff0000''\<rparr>"

definition example_issue :: GitLabIssue where
  "example_issue =
     \<lparr>issue_iid = 5, issue_title = ''@claude please fix the bug'',
      issue_description = None, issue_state = ''opened''\<rparr>"

definition example_closed_issue :: GitLabIssue where
  "example_closed_issue = example_issue\<lparr>issue_state := ''closed''\<rparr>"

definition example_merge_request :: GitLabMergeRequest where
  "example_merge_request =
     \<lparr>mr_iid = 11, mr_title = ''Refactor the parser'',
      mr_description = Some ''@claude review this'', mr_state = ''merged''\<rparr>"

definition example_note :: NoteAttributes where
  "example_note =
     \<lparr>na_id = 100, na_note = ''Hey @Claude, have a look'', na_noteable_type = ''Issue'',
      na_noteable_id = 500, na_created_at = ''2024-01-01'', na_updated_at = ''2024-01-02'',
      na_system = False\<rparr>"

definition example_system_note :: NoteAttributes where
  "example_system_note = example_note\<lparr>na_system := True\<rparr>"

definition example_commit_note :: NoteAttributes where
  "example_commit_note = example_note\<lparr>na_noteable_type := ''Commit''\<rparr>"

definition example_note_event :: "GitLabUser \<Rightarrow> NoteAttributes \<Rightarrow> GitLabWebhookEvent" where
  "example_note_event u n =
     \<lparr>user = u, project = example_project, assignees = None, labels = None,
      payload = NoteEvent n (Some example_issue) None\<rparr>"

definition example_commit_note_event :: GitLabWebhookEvent where
  "example_commit_note_event =
     \<lparr>user = example_human, project = example_project, assignees = None, labels = None,
      payload = NoteEvent example_commit_note None None\<rparr>"

definition example_issue_event ::
  "GitLabUser list option \<Rightarrow> GitLabLabel list option \<Rightarrow> GitLabIssue \<Rightarrow> GitLabWebhookEvent" where
  "example_issue_event us ls i =
     \<lparr>user = example_human, project = example_project, assignees = us, labels = ls,
      payload = IssueEvent i\<rparr>"

definition example_merge_request_event ::
  "GitLabUser list option \<Rightarrow> GitLabLabel list option \<Rightarrow> GitLabWebhookEvent" where
  "example_merge_request_event us ls =
     \<lparr>user = example_human, project = example_project, assignees = us, labels = ls,
      payload = MergeRequestEvent example_merge_request\<rparr>"

definition example_diff :: "string \<Rightarrow> bool \<Rightarrow> GitLabDiff" where
  "example_diff path deleted =
     \<lparr>old_path = path, new_path = path, new_file = False, renamed_file = False,
      deleted_file = deleted, diff = ''@@ -1 +1 @@''\<rparr>"

definition example_file :: "string \<Rightarrow> GitLabFile" where
  "example_file path =
     \<lparr>file_name = path, file_path = path, encoding = ''base64'', content = None\<rparr>"

text \<open>A repository client that has every file but \<open>missing.ts\<close>.\<close>

definition example_getFile :: "int \<Rightarrow> string \<Rightarrow> string \<Rightarrow> string + GitLabFile" where
  "example_getFile pid path branch =
     (if path = ''missing.ts'' then Inl ''404 Not Found'' else Inr (example_file path))"

definition example_decode :: "string \<Rightarrow> string" where
  "example_decode s = s"

definition example_diffs :: "GitLabDiff list" where
  "example_diffs =
     [example_diff ''src/app.ts'' False,
      example_diff ''src/old.ts'' True,
      example_diff ''package-lock.json'' False,
      example_diff ''node_modules/x/index.js'' False,
      example_diff ''assets/Logo.PNG'' False,
      example_diff ''missing.ts'' False,
      example_diff ''README.md'' False]"

text \<open>A note that has the word of the phrase \<open>@claude\<close> without its \<open>@\<close>.\<close>

definition example_bare_note :: NoteAttributes where
  "example_bare_note = example_note\<lparr>na_note := ''claude, have a look''\<rparr>"

text \<open>A phrase with a \<open>@\<close> inside, and a note that mentions it in the style \<open>@name\<close>.\<close>

definition example_mention_config :: GitLabActionConfig where
  "example_mention_config =
     \<lparr>triggerPhrase = ''claude@work'', assigneeTrigger = None, labelTrigger = None\<rparr>"

definition example_mention_note :: NoteAttributes where
  "example_mention_note = example_note\<lparr>na_note := ''ping @ClaudeWork now''\<rparr>"

text \<open>
  A blob of the pipeline with all four fields, the resource id twice. As doubles,
  \<open>13 = 7318349394477056 * 2 ^ - 49\<close> and \<open>42 = 5910974510923776 * 2 ^ - 47\<close>.
\<close>

definition example_blob :: string where
  \<open>example_blob =
     ''{"triggerType": "comment", "resourceType": "issue", "resourceId": 12, "projectId": 42, "resourceId": 13}''\<close>

definition example_blob_members :: "(js_string \<times> js_value) list" where
  "example_blob_members =
     [(code_units ''triggerType'', JString (code_units ''comment'')),
      (code_units ''resourceType'', JString (code_units ''issue'')),
      (code_units ''resourceId'', JNumber (Finite False 6755399441055744 (- 49))),
      (code_units ''projectId'', JNumber (Finite False 5910974510923776 (- 47))),
      (code_units ''resourceId'', JNumber (Finite False 7318349394477056 (- 49)))]"

section \<open>The bot filter\<close>

lemma isBotUser_iff:
  "isBotUser u \<longleftrightarrow>
     spec_bot_name_match (username u) \<or> (\<exists>n. name u = Some n \<and> spec_bot_name_match n)"
  by (cases "name u")
     (auto simp: isBotUser_def botPatterns_def regex_test_def spec_bot_name_match_def
        toLowerCase_def Let_def)

lemma validateTrigger_bot:
  "isBotUser (user event) \<Longrightarrow> \<not> shouldTrigger (validateTrigger cfg event)"
  by (simp add: validateTrigger_def)

text \<open>
  Claim C1. Whenever the username of the acting user, or the display name when there is
  one, matches one of the six bot patterns in any letter case, \<open>validateTrigger\<close>
  answers with \<open>shouldTrigger = false\<close>, whatever the kind of the event and whatever
  note, title, labels or assignees it carries.
\<close>

theorem bot_user_never_triggers:
  assumes "spec_bot_name_match (username (user event)) \<or>
           (\<exists>n. name (user event) = Some n \<and> spec_bot_name_match n)"
  shows "shouldTrigger (validateTrigger cfg event) = False"
  using assms validateTrigger_bot isBotUser_iff by blast

theorem bot_user_never_triggers_witness:
  "spec_bot_name_match (username (user (example_note_event example_bot example_note))) \<and>
   (\<exists>n. name (user (example_note_event example_named_bot example_note)) = Some n \<and>
        spec_bot_name_match n) \<and>
   containsTriggerPhrase example_config (na_note example_note) \<and>
   shouldTrigger (validateTrigger example_config
     (example_note_event example_bot example_note)) = False \<and>
   shouldTrigger (validateTrigger example_config
     (example_note_event example_named_bot example_note)) = False"
proof -
  have a: "spec_bot_name_match (username (user (example_note_event example_bot example_note)))"
    by code_simp
  have b: "spec_bot_name_match ''Release Automation''"
    by code_simp
  have c: "\<exists>n. name (user (example_note_event example_named_bot example_note)) = Some n \<and>
        spec_bot_name_match n"
    using b by (simp add: example_note_event_def example_named_bot_def)
  have d: "containsTriggerPhrase example_config (na_note example_note)"
    by code_simp
  show ?thesis
    using a c d
      bot_user_never_triggers [of "example_note_event example_bot example_note" example_config]
      bot_user_never_triggers
        [of "example_note_event example_named_bot example_note" example_config]
    by blast
qed

section \<open>Issue and merge-request events\<close>

lemma validateTrigger_issue:
  "\<not> isBotUser (user event) \<Longrightarrow> payload event = IssueEvent issue \<Longrightarrow>
   validateTrigger cfg event =
     validateIssueEvent cfg event issue
       \<lparr>shouldTrigger = False, triggerType = None, resourceType = None,
        resourceId = None, projectId = Some (project_id (project event)),
        triggeredBy = Some (user event), triggerComment = None\<rparr>"
  by (simp add: validateTrigger_def)

lemma validateTrigger_merge_request:
  "\<not> isBotUser (user event) \<Longrightarrow> payload event = MergeRequestEvent mr \<Longrightarrow>
   validateTrigger cfg event =
     validateMergeRequestEvent cfg event mr
       \<lparr>shouldTrigger = False, triggerType = None, resourceType = None,
        resourceId = None, projectId = Some (project_id (project event)),
        triggeredBy = Some (user event), triggerComment = None\<rparr>"
  by (simp add: validateTrigger_def)

text \<open>
  The two guards in elementary terms: the trigger is configured (a string that is not
  empty), the event carries the list, and the list has the configured name.
\<close>

lemma hasAssigneeTrigger_iff:
  "hasAssigneeTrigger cfg event \<longleftrightarrow>
     (\<exists>a us. assigneeTrigger cfg = Some a \<and> a \<noteq> '''' \<and> assignees event = Some us \<and>
        a \<in> username ` set us)"
  by (auto simp: hasAssigneeTrigger_def list_ex_iff split: option.splits)

lemma hasLabelTrigger_iff:
  "hasLabelTrigger cfg event \<longleftrightarrow>
     (\<exists>l ls. labelTrigger cfg = Some l \<and> l \<noteq> '''' \<and> labels event = Some ls \<and>
        l \<in> label_title ` set ls)"
  by (auto simp: hasLabelTrigger_def list_ex_iff split: option.splits)

lemma assignee_match_wins:
  assumes "\<not> isBotUser (user event)"
    and "payload event = IssueEvent issue \<or> payload event = MergeRequestEvent mr"
    and "hasAssigneeTrigger cfg event"
  shows "shouldTrigger (validateTrigger cfg event) \<and>
         triggerType (validateTrigger cfg event) = Some Assignee"
  using assms
  by (auto simp: validateTrigger_issue validateTrigger_merge_request
      validateIssueEvent_def validateMergeRequestEvent_def)

lemma label_match_second:
  assumes "\<not> isBotUser (user event)"
    and "payload event = IssueEvent issue \<or> payload event = MergeRequestEvent mr"
    and "\<not> hasAssigneeTrigger cfg event"
    and "hasLabelTrigger cfg event"
  shows "shouldTrigger (validateTrigger cfg event) \<and>
         triggerType (validateTrigger cfg event) = Some Label"
  using assms
  by (auto simp: validateTrigger_issue validateTrigger_merge_request
      validateIssueEvent_def validateMergeRequestEvent_def)

text \<open>
  Claim C2. On an issue or merge-request event of a user who is not a bot, the three
  conditions are tried in the order assignee, label, phrase, and the first that holds
  decides: when the configured assignee is among the assignees the trigger type is
  \<open>assignee\<close>, and when the assignee condition fails and the configured label is among
  the labels it is \<open>label\<close>. Neither conclusion asks anything of the labels (in the
  first case), of the state, the title or the description, so both hold as well when
  the later conditions match too.
\<close>

theorem trigger_priority_order:
  assumes "\<not> isBotUser (user event)"
    and "payload event = IssueEvent issue \<or> payload event = MergeRequestEvent mr"
  shows "(assigneeTrigger cfg = Some a \<and> a \<noteq> '''' \<and> assignees event = Some us \<and>
          a \<in> username ` set us \<longrightarrow>
            shouldTrigger (validateTrigger cfg event) \<and>
            triggerType (validateTrigger cfg event) = Some Assignee) \<and>
         (\<not> hasAssigneeTrigger cfg event \<and>
          labelTrigger cfg = Some l \<and> l \<noteq> '''' \<and> labels event = Some ls \<and>
          l \<in> label_title ` set ls \<longrightarrow>
            shouldTrigger (validateTrigger cfg event) \<and>
            triggerType (validateTrigger cfg event) = Some Label)"
  using assignee_match_wins [OF assms] label_match_second [OF assms]
    hasAssigneeTrigger_iff [of cfg event] hasLabelTrigger_iff [of cfg event]
  by blast

text \<open>
  The first event is an opened issue assigned to \<open>claude\<close>, labelled \<open>claude\<close> and
  titled with the phrase; the second is the same issue without the assignee.
\<close>

theorem trigger_priority_order_witness:
  "hasLabelTrigger example_config
     (example_issue_event (Some [example_human, example_assignee]) (Some [example_label])
        example_issue) \<and>
   containsTriggerPhrase example_config (issue_title example_issue) \<and>
   issue_state example_issue = ''opened'' \<and>
   triggerType (validateTrigger example_config
     (example_issue_event (Some [example_human, example_assignee]) (Some [example_label])
        example_issue)) = Some Assignee \<and>
   triggerType (validateTrigger example_config
     (example_issue_event (Some [example_human]) (Some [example_label])
        example_issue)) = Some Label"
proof -
  let ?e1 = "example_issue_event (Some [example_human, example_assignee])
    (Some [example_label]) example_issue"
  let ?e2 = "example_issue_event (Some [example_human]) (Some [example_label]) example_issue"
  have nb1: "\<not> isBotUser (user ?e1)" and nb2: "\<not> isBotUser (user ?e2)"
    by code_simp+
  have k1: "payload ?e1 = IssueEvent example_issue \<or>
      payload ?e1 = MergeRequestEvent example_merge_request"
    and k2: "payload ?e2 = IssueEvent example_issue \<or>
      payload ?e2 = MergeRequestEvent example_merge_request"
    by (simp_all add: example_issue_event_def)
  have a1: "assigneeTrigger example_config = Some ''claude'' \<and> ''claude'' \<noteq> '''' \<and>
      assignees ?e1 = Some [example_human, example_assignee] \<and>
      ''claude'' \<in> username ` set [example_human, example_assignee]"
    by (simp add: example_config_def example_issue_event_def example_assignee_def)
  have a2: "\<not> hasAssigneeTrigger example_config ?e2"
    by code_simp
  have l2: "labelTrigger example_config = Some ''claude'' \<and> ''claude'' \<noteq> '''' \<and>
      labels ?e2 = Some [example_label] \<and> ''claude'' \<in> label_title ` set [example_label]"
    by (simp add: example_config_def example_issue_event_def example_label_def)
  have l1: "hasLabelTrigger example_config ?e1"
    by code_simp
  have p: "containsTriggerPhrase example_config (issue_title example_issue)"
    by code_simp
  have s: "issue_state example_issue = ''opened''"
    by (simp add: example_issue_def)
  show ?thesis
    using a1 a2 l1 l2 p s
      trigger_priority_order [OF nb1 k1, of example_config "''claude''"
        "[example_human, example_assignee]"]
      trigger_priority_order [OF nb2 k2, of example_config _ _ "''claude''" "[example_label]"]
    by blast
qed

text \<open>
  Claim C8. On an issue or merge-request event of a user who is not a bot, when neither
  the assignee condition nor the label condition holds and the state of the resource
  is not \<open>opened\<close>, the result has \<open>shouldTrigger = false\<close>, whatever the title and the
  description say: the phrase is looked for in an opened resource only.
\<close>

theorem closed_resource_phrase_ignored:
  assumes "\<not> isBotUser (user event)"
    and "(payload event = IssueEvent issue \<and> issue_state issue \<noteq> ''opened'') \<or>
         (payload event = MergeRequestEvent mr \<and> mr_state mr \<noteq> ''opened'')"
    and "\<not> hasAssigneeTrigger cfg event"
    and "\<not> hasLabelTrigger cfg event"
  shows "shouldTrigger (validateTrigger cfg event) = False"
  using assms
  by (auto simp: validateTrigger_issue validateTrigger_merge_request
      validateIssueEvent_def validateMergeRequestEvent_def)

text \<open>
  A closed issue with the phrase in its title and a merged merge request with the
  phrase in its description; the opened issue of the same title does trigger.
\<close>

theorem closed_resource_phrase_ignored_witness:
  "containsTriggerPhrase example_config (issue_title example_closed_issue) \<and>
   shouldTrigger (validateTrigger example_config
     (example_issue_event None None example_closed_issue)) = False \<and>
   containsTriggerPhrase example_config ''@claude review this'' \<and>
   shouldTrigger (validateTrigger example_config
     (example_merge_request_event (Some []) (Some []))) = False \<and>
   shouldTrigger (validateTrigger example_config
     (example_issue_event None None example_issue))"
proof -
  let ?e1 = "example_issue_event None None example_closed_issue"
  let ?e2 = "example_merge_request_event (Some []) (Some [])"
  have nb1: "\<not> isBotUser (user ?e1)" and nb2: "\<not> isBotUser (user ?e2)"
    by code_simp+
  have k1: "(payload ?e1 = IssueEvent example_closed_issue \<and>
        issue_state example_closed_issue \<noteq> ''opened'') \<or>
      (payload ?e1 = MergeRequestEvent example_merge_request \<and>
        mr_state example_merge_request \<noteq> ''opened'')"
    by (simp add: example_issue_event_def example_closed_issue_def)
  have k2: "(payload ?e2 = IssueEvent example_closed_issue \<and>
        issue_state example_closed_issue \<noteq> ''opened'') \<or>
      (payload ?e2 = MergeRequestEvent example_merge_request \<and>
        mr_state example_merge_request \<noteq> ''opened'')"
    by (simp add: example_merge_request_event_def example_merge_request_def)
  have a1: "\<not> hasAssigneeTrigger example_config ?e1"
    and a2: "\<not> hasAssigneeTrigger example_config ?e2"
    and l1: "\<not> hasLabelTrigger example_config ?e1"
    and l2: "\<not> hasLabelTrigger example_config ?e2"
    by code_simp+
  have p1: "containsTriggerPhrase example_config (issue_title example_closed_issue)"
    and p2: "containsTriggerPhrase example_config ''@claude review this''"
    and o: "shouldTrigger (validateTrigger example_config
      (example_issue_event None None example_issue))"
    by code_simp+
  show ?thesis
    using p1 p2 o
      closed_resource_phrase_ignored [OF nb1 k1 a1 l1]
      closed_resource_phrase_ignored [OF nb2 k2 a2 l2]
    by blast
qed

section \<open>Note events\<close>

lemma validateTrigger_note:
  "\<not> isBotUser (user event) \<Longrightarrow> payload event = NoteEvent note issue merge_request \<Longrightarrow>
   validateTrigger cfg event =
     validateNoteEvent cfg event note issue merge_request
       \<lparr>shouldTrigger = False, triggerType = None, resourceType = None,
        resourceId = None, projectId = Some (project_id (project event)),
        triggeredBy = Some (user event), triggerComment = None\<rparr>"
  by (simp add: validateTrigger_def)

lemma toLowerCase_append: "toLowerCase (xs @ ys) = toLowerCase xs @ toLowerCase ys"
  by (simp add: toLowerCase_def)

lemma toLowerCase_at: "toLowerCase ''@'' = ''@''"
  by code_simp

text \<open>
  The two tests of \<open>containsTriggerPhrase\<close> in elementary terms: the body is not
  empty and, lower-cased, has the lower-cased phrase in it, or has a \<open>@\<close> followed by
  the lower-cased phrase without its first \<open>@\<close>.
\<close>

lemma containsTriggerPhrase_iff:
  "containsTriggerPhrase cfg txt \<longleftrightarrow>
     txt \<noteq> '''' \<and>
     (sublist (toLowerCase (triggerPhrase cfg)) (toLowerCase txt) \<or>
      sublist (''@'' @ remove1 (CHR ''@'') (toLowerCase (triggerPhrase cfg)))
        (toLowerCase txt))"
  by (simp add: containsTriggerPhrase_def Let_def str_includes_def replace_first_at_def)

lemma note_event_result:
  assumes "\<not> isBotUser (user event)"
    and "payload event = NoteEvent note issue merge_request"
    and "\<not> na_system note"
  shows "shouldTrigger (validateTrigger cfg event) = containsTriggerPhrase cfg (na_note note)"
    and "triggerType (validateTrigger cfg event) =
           (if containsTriggerPhrase cfg (na_note note) then Some Comment else None)"
  using assms
  by (simp_all add: validateTrigger_note validateNoteEvent_def Let_def
      split: option.splits bool.splits)

text \<open>
  Claim C7. A note event whose note is a system note has \<open>shouldTrigger = false\<close>,
  whether or not the body of the note contains the trigger phrase.
\<close>

theorem system_note_never_triggers:
  assumes "payload event = NoteEvent note issue merge_request"
    and "na_system note"
  shows "shouldTrigger (validateTrigger cfg event) = False"
  using assms by (simp add: validateTrigger_def validateNoteEvent_def Let_def)

theorem system_note_never_triggers_witness:
  "payload (example_note_event example_human example_system_note) =
     NoteEvent example_system_note (Some example_issue) None \<and>
   na_system example_system_note \<and>
   containsTriggerPhrase example_config (na_note example_system_note) \<and>
   shouldTrigger (validateTrigger example_config
     (example_note_event example_human example_system_note)) = False"
proof -
  have a: "payload (example_note_event example_human example_system_note) =
     NoteEvent example_system_note (Some example_issue) None"
    by (simp add: example_note_event_def)
  have b: "na_system example_system_note"
    by (simp add: example_system_note_def)
  have c: "containsTriggerPhrase example_config (na_note example_system_note)"
    by code_simp
  show ?thesis
    using a b c system_note_never_triggers [OF a b, of example_config] by simp
qed

text \<open>
  Claim C6, as the code has it. On a note event of a user who is not a bot, with a
  note that is not a system note, the result has \<open>shouldTrigger = true\<close>, and then the
  trigger type \<open>comment\<close>, exactly when the body passes one of the two tests of
  \<open>containsTriggerPhrase\<close>. So the event triggers whenever the body contains an
  occurrence of the whole configured phrase in any letter case (\<open>occ\<close> lower-cases to
  what the phrase lower-cases to; the phrase is not empty), with a further \<open>@\<close> in
  front of the occurrence or without one, and whenever it contains a \<open>@\<close> followed by
  the phrase without its first \<open>@\<close>. The \<open>@\<close> at the start of a phrase is not optional:
  when the lower-cased phrase is \<open>@\<close> and a word, a body that does not have the \<open>@\<close>
  and the word does not trigger, although it may have the word.
\<close>

theorem note_phrase_triggers_comment:
  assumes "\<not> isBotUser (user event)"
    and "payload event = NoteEvent note issue merge_request"
    and "\<not> na_system note"
  shows "(shouldTrigger (validateTrigger cfg event) \<longleftrightarrow>
            na_note note \<noteq> '''' \<and>
            (sublist (toLowerCase (triggerPhrase cfg)) (toLowerCase (na_note note)) \<or>
             sublist (''@'' @ remove1 (CHR ''@'') (toLowerCase (triggerPhrase cfg)))
               (toLowerCase (na_note note)))) \<and>
         (shouldTrigger (validateTrigger cfg event) \<longrightarrow>
            triggerType (validateTrigger cfg event) = Some Comment) \<and>
         (triggerPhrase cfg \<noteq> '''' \<and> toLowerCase occ = toLowerCase (triggerPhrase cfg) \<and>
          (na_note note = pre @ occ @ post \<or> na_note note = pre @ ''@'' @ occ @ post) \<longrightarrow>
            shouldTrigger (validateTrigger cfg event) \<and>
            triggerType (validateTrigger cfg event) = Some Comment) \<and>
         (toLowerCase occ = remove1 (CHR ''@'') (toLowerCase (triggerPhrase cfg)) \<and>
          na_note note = pre @ ''@'' @ occ @ post \<longrightarrow>
            shouldTrigger (validateTrigger cfg event) \<and>
            triggerType (validateTrigger cfg event) = Some Comment) \<and>
         (toLowerCase (triggerPhrase cfg) = ''@'' @ word \<and>
          \<not> sublist (''@'' @ word) (toLowerCase (na_note note)) \<longrightarrow>
            \<not> shouldTrigger (validateTrigger cfg event))"
proof -
  let ?body = "toLowerCase (na_note note)"
  let ?phrase = "toLowerCase (triggerPhrase cfg)"
  let ?mention = "''@'' @ remove1 (CHR ''@'') ?phrase"
  let ?test = "na_note note \<noteq> '''' \<and> (sublist ?phrase ?body \<or> sublist ?mention ?body)"
  have should: "shouldTrigger (validateTrigger cfg event) \<longleftrightarrow> ?test"
    using note_event_result(1) [OF assms] containsTriggerPhrase_iff by simp
  have type: "triggerType (validateTrigger cfg event) = Some Comment" if ?test
    using note_event_result(2) [OF assms, of cfg] containsTriggerPhrase_iff that by simp
  have whole: ?test
    if "triggerPhrase cfg \<noteq> ''''" "toLowerCase occ = toLowerCase (triggerPhrase cfg)"
      "na_note note = pre @ occ @ post \<or> na_note note = pre @ ''@'' @ occ @ post"
  proof -
    have "occ \<noteq> ''''"
      using that(1,2) by (auto simp: toLowerCase_def)
    moreover have "sublist ?phrase (toLowerCase (pre @ occ @ post))"
      by (simp add: toLowerCase_append flip: that(2))
    moreover have "sublist ?phrase (toLowerCase ((pre @ ''@'') @ occ @ post))"
      unfolding toLowerCase_append [of "pre @ ''@''"] toLowerCase_append [of occ]
      by (simp flip: that(2))
    ultimately show ?thesis
      using that(3) by auto
  qed
  have mention: ?test
    if "toLowerCase occ = remove1 (CHR ''@'') ?phrase" "na_note note = pre @ ''@'' @ occ @ post"
  proof -
    have "?body = toLowerCase pre @ (toLowerCase ''@'' @ toLowerCase occ) @ toLowerCase post"
      unfolding that(2) by (simp only: toLowerCase_append append_assoc)
    then have "?body = toLowerCase pre @ ?mention @ toLowerCase post"
      by (simp only: toLowerCase_at that(1))
    then have "sublist ?mention ?body"
      by (metis sublist_appendI)
    then show ?thesis
      using that(2) by simp
  qed
  have bare: "\<not> ?test" if "?phrase = ''@'' @ word" "\<not> sublist (''@'' @ word) ?body"
    using that by simp
  show ?thesis
    using should type whole mention bare by blast
qed

text \<open>
  The phrase \<open>@claude\<close> and a body that writes it \<open>@Claude\<close>; the phrase \<open>claude\<close>
  and the same body, where a \<open>@\<close> stands in front of the occurrence; the phrase
  \<open>claude@work\<close> and a body that mentions \<open>@ClaudeWork\<close>, which does not contain the
  phrase; the phrase \<open>@claude\<close> and a body with the bare word.
\<close>

theorem note_phrase_triggers_comment_witness:
  "toLowerCase ''@Claude'' = toLowerCase (triggerPhrase example_config) \<and>
   na_note example_note = ''Hey '' @ ''@Claude'' @ '', have a look'' \<and>
   triggerType (validateTrigger example_config
     (example_note_event example_human example_note)) = Some Comment \<and>
   toLowerCase ''Claude'' =
     toLowerCase (triggerPhrase (example_config\<lparr>triggerPhrase := ''claude''\<rparr>)) \<and>
   na_note example_note = ''Hey '' @ ''@'' @ ''Claude'' @ '', have a look'' \<and>
   triggerType (validateTrigger (example_config\<lparr>triggerPhrase := ''claude''\<rparr>)
     (example_note_event example_human example_note)) = Some Comment \<and>
   toLowerCase ''ClaudeWork'' =
     remove1 (CHR ''@'') (toLowerCase (triggerPhrase example_mention_config)) \<and>
   na_note example_mention_note = ''ping '' @ ''@'' @ ''ClaudeWork'' @ '' now'' \<and>
   \<not> sublist (toLowerCase (triggerPhrase example_mention_config))
     (toLowerCase (na_note example_mention_note)) \<and>
   triggerType (validateTrigger example_mention_config
     (example_note_event example_human example_mention_note)) = Some Comment \<and>
   toLowerCase (triggerPhrase example_config) = ''@'' @ ''claude'' \<and>
   sublist ''claude'' (toLowerCase (na_note example_bare_note)) \<and>
   \<not> shouldTrigger (validateTrigger example_config
     (example_note_event example_human example_bare_note))"
proof -
  let ?cfg = "example_config\<lparr>triggerPhrase := ''claude''\<rparr>"
  have nb: "\<not> isBotUser (user (example_note_event example_human n))" for n
    by (simp add: example_note_event_def) code_simp
  have kind: "payload (example_note_event example_human n) =
      NoteEvent n (Some example_issue) None" for n
    by (simp add: example_note_event_def)
  have user_note: "\<not> na_system example_note" "\<not> na_system example_mention_note"
    "\<not> na_system example_bare_note"
    by (simp_all add: example_note_def example_mention_note_def example_bare_note_def)
  have d: "triggerPhrase example_config \<noteq> ''''" and d': "triggerPhrase ?cfg \<noteq> ''''"
    by (simp_all add: example_config_def)
  have e: "toLowerCase ''@Claude'' = toLowerCase (triggerPhrase example_config)"
    and e': "toLowerCase ''Claude'' = toLowerCase (triggerPhrase ?cfg)"
    and e'': "toLowerCase ''ClaudeWork'' =
      remove1 (CHR ''@'') (toLowerCase (triggerPhrase example_mention_config))"
    and g: "toLowerCase (triggerPhrase example_config) = ''@'' @ ''claude''"
    by code_simp+
  have f: "na_note example_note = ''Hey '' @ ''@Claude'' @ '', have a look''"
    and f': "na_note example_note = ''Hey '' @ ''@'' @ ''Claude'' @ '', have a look''"
    and f'': "na_note example_mention_note = ''ping '' @ ''@'' @ ''ClaudeWork'' @ '' now''"
    by (simp_all add: example_note_def example_mention_note_def)
  have h: "\<not> sublist (toLowerCase (triggerPhrase example_mention_config))
      (toLowerCase (na_note example_mention_note))"
    and h': "sublist ''claude'' (toLowerCase (na_note example_bare_note))"
    and h'': "\<not> sublist (''@'' @ ''claude'') (toLowerCase (na_note example_bare_note))"
    by code_simp+
  show ?thesis
    using d d' e e' e'' f f' f'' g h h' h''
      note_phrase_triggers_comment [OF nb kind user_note(1), of example_config "''@Claude''"
        "''Hey ''" "'', have a look''"]
      note_phrase_triggers_comment [OF nb kind user_note(1), of ?cfg "''Claude''"
        "''Hey ''" "'', have a look''"]
      note_phrase_triggers_comment [OF nb kind user_note(2), of example_mention_config
        "''ClaudeWork''" "''ping ''" "'' now''"]
      note_phrase_triggers_comment [OF nb kind user_note(3), of example_config _ _ _
        "''claude''"]
    by blast
qed

text \<open>
  Claim C6, as the specification states it, fails where the phrase itself starts with
  \<open>@\<close>, as the default \<open>@claude\<close> does: a note of a user who is not a bot, not a system
  note, whose body has the phrase without the leading \<open>@\<close>, does not trigger.
\<close>

theorem note_bare_word_counterexample:
  "\<not> isBotUser (user (example_note_event example_human example_bare_note)) \<and>
   payload (example_note_event example_human example_bare_note) =
     NoteEvent example_bare_note (Some example_issue) None \<and>
   \<not> na_system example_bare_note \<and>
   triggerPhrase example_config = ''@claude'' \<and>
   na_note example_bare_note = ''claude, have a look'' \<and>
   shouldTrigger (validateTrigger example_config
     (example_note_event example_human example_bare_note)) = False"
  by code_simp

text \<open>
  Claim C10. On a note event of a user who is not a bot, with a note that is not a
  system note and whose body matches the trigger phrase, when the note is neither on an
  \<open>Issue\<close> with the issue attached to the event nor on a \<open>MergeRequest\<close> with the merge
  request attached, the result has \<open>shouldTrigger = true\<close> and the trigger comment set,
  while the resource type and the resource id stay null.
\<close>

theorem note_trigger_without_resource:
  assumes "\<not> isBotUser (user event)"
    and "payload event = NoteEvent note issue merge_request"
    and "\<not> na_system note"
    and "containsTriggerPhrase cfg (na_note note)"
    and "\<not> (na_noteable_type note = ''Issue'' \<and> issue \<noteq> None)"
    and "\<not> (na_noteable_type note = ''MergeRequest'' \<and> merge_request \<noteq> None)"
  shows "shouldTrigger (validateTrigger cfg event) \<and>
         triggerComment (validateTrigger cfg event) \<noteq> None \<and>
         resourceType (validateTrigger cfg event) = None \<and>
         resourceId (validateTrigger cfg event) = None"
  using assms
  by (auto simp: validateTrigger_note validateNoteEvent_def Let_def
      split: option.splits bool.splits)

text \<open>A comment on a commit: the event attaches neither an issue nor a merge request.\<close>

theorem note_trigger_without_resource_witness:
  "\<not> isBotUser (user example_commit_note_event) \<and>
   payload example_commit_note_event = NoteEvent example_commit_note None None \<and>
   \<not> na_system example_commit_note \<and>
   containsTriggerPhrase example_config (na_note example_commit_note) \<and>
   shouldTrigger (validateTrigger example_config example_commit_note_event) \<and>
   triggerComment (validateTrigger example_config example_commit_note_event) \<noteq> None \<and>
   resourceType (validateTrigger example_config example_commit_note_event) = None \<and>
   resourceId (validateTrigger example_config example_commit_note_event) = None"
proof -
  have a: "\<not> isBotUser (user example_commit_note_event)"
    by code_simp
  have b: "payload example_commit_note_event = NoteEvent example_commit_note None None"
    by (simp add: example_commit_note_event_def)
  have c: "\<not> na_system example_commit_note"
    by (simp add: example_commit_note_def example_note_def)
  have d: "containsTriggerPhrase example_config (na_note example_commit_note)"
    by code_simp
  have e: "\<not> (na_noteable_type example_commit_note = ''Issue'' \<and>
      (None :: GitLabIssue option) \<noteq> None)"
    and f: "\<not> (na_noteable_type example_commit_note = ''MergeRequest'' \<and>
      (None :: GitLabMergeRequest option) \<noteq> None)"
    by simp_all
  show ?thesis
    using a b c d note_trigger_without_resource [OF a b c d e f] by simp
qed

section \<open>The pipeline trigger\<close>

lemma validatePipelineTrigger_never_throws:
  "\<exists>r. validatePipelineTrigger parse triggerData = Inr r"
  by (simp add: validatePipelineTrigger_def split: sum.splits)

text \<open>
  Claim C3. For every input that \<open>JSON.parse\<close> refuses, \<open>validatePipelineTrigger\<close>
  returns, without an exception leaving it, the result with \<open>shouldTrigger = false\<close>
  and with the trigger type, the resource type, the resource id, the project id and
  the triggering user all null.
\<close>

theorem pipeline_trigger_non_json:
  assumes "parse triggerData = None"
  shows "validatePipelineTrigger parse triggerData =
           Inr \<lparr>pt_shouldTrigger = False, pt_triggerType = JNull, pt_resourceType = JNull,
                pt_resourceId = JNull, pt_projectId = JNull, pt_triggeredBy = JNull\<rparr>"
  using assms by (simp add: validatePipelineTrigger_def validatePipelineTrigger_try_def)

theorem pipeline_trigger_non_json_witness:
  "JSON_parse ''not json'' = None \<and>
   validatePipelineTrigger JSON_parse ''not json'' =
     Inr \<lparr>pt_shouldTrigger = False, pt_triggerType = JNull, pt_resourceType = JNull,
          pt_resourceId = JNull, pt_projectId = JNull, pt_triggeredBy = JNull\<rparr>"
proof -
  have a: "JSON_parse ''not json'' = None"
    by code_simp
  show ?thesis
    using a pipeline_trigger_non_json [of JSON_parse "''not json''"] by simp
qed

text \<open>
  The member that a property read finds is the last one of its name: the description
  of \<open>spec_taken_verbatim\<close> and the lookup in the reversed list of members agree.
\<close>

lemma map_of_rev_last:
  assumes "k \<notin> fst ` set post"
  shows "map_of (rev (pre @ (k, v) # post)) k = Some v"
proof -
  have "map_of (rev post) k = None"
    using assms by (simp add: map_of_eq_None_iff)
  then show ?thesis
    by (simp add: map_add_def)
qed

lemma spec_taken_verbatim_iff:
  "spec_taken_verbatim kvs key field \<longleftrightarrow>
     field = (case map_of (rev kvs) (code_units key) of Some v \<Rightarrow> v | None \<Rightarrow> JUndefined)"
proof (cases "code_units key \<in> fst ` set kvs")
  case False
  then have "map_of (rev kvs) (code_units key) = None"
    by (simp add: map_of_eq_None_iff)
  moreover have "kvs \<noteq> pre @ (code_units key, v) # post" for pre v post
    using False by force
  ultimately show ?thesis
    using False by (simp add: spec_taken_verbatim_def)
next
  case True
  then have "\<exists>x \<in> set kvs. fst x = code_units key"
    by force
  then obtain pre x post where split: "kvs = pre @ x # post" "fst x = code_units key"
    "\<forall>z \<in> set post. fst z \<noteq> code_units key"
    using split_list_last_prop [of kvs "\<lambda>x. fst x = code_units key"] by blast
  then obtain v where x: "x = (code_units key, v)"
    by (cases x) auto
  have last: "code_units key \<notin> fst ` set post"
    using split(3) by auto
  have found: "map_of (rev kvs) (code_units key) = Some v"
    using map_of_rev_last [OF last] by (simp add: split(1) x)
  have only: "w = v"
    if "kvs = pre1 @ (code_units key, w) # post1" "code_units key \<notin> fst ` set post1"
    for pre1 w post1
    using map_of_rev_last [OF that(2), of pre1 w] found that(1) by simp
  show ?thesis
  proof
    assume "spec_taken_verbatim kvs key field"
    then have "field = v"
      using split(1) x last unfolding spec_taken_verbatim_def by blast
    then show "field =
        (case map_of (rev kvs) (code_units key) of Some v \<Rightarrow> v | None \<Rightarrow> JUndefined)"
      by (simp add: found)
  next
    assume "field =
        (case map_of (rev kvs) (code_units key) of Some v \<Rightarrow> v | None \<Rightarrow> JUndefined)"
    then have "field = v"
      by (simp add: found)
    then show "spec_taken_verbatim kvs key field"
      using True only unfolding spec_taken_verbatim_def by blast
  qed
qed

lemma js_or_direct: "js_or tt (JString (code_units ''direct'')) = spec_or_direct tt"
  by (cases tt rule: js_truthy.cases) (simp_all add: js_or_def spec_or_direct_def)

lemma get_property_object:
  "get_property (JObject kvs) key = Inr field \<longleftrightarrow> spec_taken_verbatim kvs key field"
  by (auto simp: spec_taken_verbatim_iff)

lemma get_property_other:
  assumes "data \<noteq> JNull" and "data \<noteq> JUndefined" and "\<forall>kvs. data \<noteq> JObject kvs"
  shows "get_property data key = Inr JUndefined"
  using assms by (cases data) simp_all

text \<open>
  Claim C9. For every input that \<open>JSON.parse\<close> turns into a value other than null
  (\<open>JSON.parse\<close> never returns \<open>undefined\<close>), \<open>validatePipelineTrigger\<close> returns a
  result with \<open>shouldTrigger = true\<close>. When the value is an object, the resource type,
  the resource id and the project id of the result are taken verbatim from its
  members, unchecked, and are \<open>undefined\<close> where it has none of the name; the trigger
  type is the one of the blob, and \<open>direct\<close> when the blob has none. A value that is
  not an object has no members: the three fields are \<open>undefined\<close> and the trigger type
  is \<open>direct\<close>.
\<close>

theorem pipeline_trigger_any_json:
  assumes "parse triggerData = Some data"
    and "data \<noteq> JNull"
    and "data \<noteq> JUndefined"
  shows "\<exists>r. validatePipelineTrigger parse triggerData = Inr r \<and>
           pt_shouldTrigger r \<and>
           (\<forall>kvs. data = JObject kvs \<longrightarrow>
              spec_taken_verbatim kvs ''resourceType'' (pt_resourceType r) \<and>
              spec_taken_verbatim kvs ''resourceId'' (pt_resourceId r) \<and>
              spec_taken_verbatim kvs ''projectId'' (pt_projectId r) \<and>
              (\<exists>tt. spec_taken_verbatim kvs ''triggerType'' tt \<and>
                 pt_triggerType r = spec_or_direct tt)) \<and>
           ((\<forall>kvs. data \<noteq> JObject kvs) \<longrightarrow>
              pt_resourceType r = JUndefined \<and>
              pt_resourceId r = JUndefined \<and>
              pt_projectId r = JUndefined \<and>
              pt_triggerType r = JString (code_units ''direct''))"
proof (cases "\<exists>kvs. data = JObject kvs")
  case True
  then obtain kvs where data: "data = JObject kvs"
    by blast
  obtain tt rt rid pid tb where reads:
    "get_property (JObject kvs) ''triggerType'' = Inr tt"
    "get_property (JObject kvs) ''resourceType'' = Inr rt"
    "get_property (JObject kvs) ''resourceId'' = Inr rid"
    "get_property (JObject kvs) ''projectId'' = Inr pid"
    "get_property (JObject kvs) ''triggeredBy'' = Inr tb"
    by simp
  have result: "validatePipelineTrigger parse triggerData =
      Inr \<lparr>pt_shouldTrigger = True, pt_triggerType = spec_or_direct tt,
           pt_resourceType = rt, pt_resourceId = rid, pt_projectId = pid,
           pt_triggeredBy = js_or tb JNull\<rparr>"
    using assms(1) reads
    unfolding validatePipelineTrigger_def validatePipelineTrigger_try_def data
    by (simp add: bind_error_def js_or_direct del: get_property.simps)
  show ?thesis
    using reads(1-4) [unfolded get_property_object] by (simp add: result data) blast
next
  case False
  then have other: "\<forall>kvs. data \<noteq> JObject kvs"
    by blast
  have "validatePipelineTrigger parse triggerData =
      Inr \<lparr>pt_shouldTrigger = True, pt_triggerType = JString (code_units ''direct''),
           pt_resourceType = JUndefined, pt_resourceId = JUndefined,
           pt_projectId = JUndefined, pt_triggeredBy = JNull\<rparr>"
    using assms(1) get_property_other [OF assms(2,3) other]
    by (simp add: validatePipelineTrigger_def validatePipelineTrigger_try_def bind_error_def
        js_or_def)
  then show ?thesis
    using other by simp
qed

text \<open>
  The blob \<open>{}\<close> triggers with nothing to act on; the sample blob gives its four
  fields to the result, the second of its two resource ids; the blob \<open>[1]\<close> is not an
  object and triggers with nothing as well.
\<close>

theorem pipeline_trigger_any_json_witness:
  "JSON_parse ''{}'' = Some (JObject []) \<and>
   (\<exists>r. validatePipelineTrigger JSON_parse ''{}'' = Inr r \<and>
        pt_shouldTrigger r \<and>
        pt_triggerType r = JString (code_units ''direct'') \<and>
        pt_resourceType r = JUndefined \<and>
        pt_resourceId r = JUndefined \<and>
        pt_projectId r = JUndefined) \<and>
   JSON_parse example_blob = Some (JObject example_blob_members) \<and>
   (\<exists>r. validatePipelineTrigger JSON_parse example_blob = Inr r \<and>
        pt_shouldTrigger r \<and>
        pt_triggerType r = JString (code_units ''comment'') \<and>
        pt_resourceType r = JString (code_units ''issue'') \<and>
        pt_resourceId r = JNumber (Finite False 7318349394477056 (- 49)) \<and>
        pt_projectId r = JNumber (Finite False 5910974510923776 (- 47))) \<and>
   JSON_parse ''[1]'' = Some (JArray [JNumber (Finite False 4503599627370496 (- 52))]) \<and>
   (\<exists>r. validatePipelineTrigger JSON_parse ''[1]'' = Inr r \<and>
        pt_shouldTrigger r \<and>
        pt_triggerType r = JString (code_units ''direct'') \<and>
        pt_resourceType r = JUndefined)"
proof -
  have a1: "JSON_parse ''{}'' = Some (JObject [])"
    and a2: "JSON_parse example_blob = Some (JObject example_blob_members)"
    and a3: "JSON_parse ''[1]'' = Some (JArray [JNumber (Finite False 4503599627370496 (- 52))])"
    by code_simp+
  have v: "spec_taken_verbatim [] key field \<longleftrightarrow> field = JUndefined" for key field
    by (simp add: spec_taken_verbatim_iff)
  have m: "(case map_of (rev example_blob_members) (code_units ''triggerType'') of
        Some v \<Rightarrow> v | None \<Rightarrow> JUndefined) = JString (code_units ''comment'')"
    "(case map_of (rev example_blob_members) (code_units ''resourceType'') of
        Some v \<Rightarrow> v | None \<Rightarrow> JUndefined) = JString (code_units ''issue'')"
    "(case map_of (rev example_blob_members) (code_units ''resourceId'') of
        Some v \<Rightarrow> v | None \<Rightarrow> JUndefined) = JNumber (Finite False 7318349394477056 (- 49))"
    "(case map_of (rev example_blob_members) (code_units ''projectId'') of
        Some v \<Rightarrow> v | None \<Rightarrow> JUndefined) = JNumber (Finite False 5910974510923776 (- 47))"
    by code_simp+
  have d: "spec_or_direct JUndefined = JString (code_units ''direct'')"
    "spec_or_direct (JString (code_units ''comment'')) = JString (code_units ''comment'')"
    by code_simp+
  have e1: "\<exists>r. validatePipelineTrigger JSON_parse ''{}'' = Inr r \<and>
        pt_shouldTrigger r \<and>
        pt_triggerType r = JString (code_units ''direct'') \<and>
        pt_resourceType r = JUndefined \<and>
        pt_resourceId r = JUndefined \<and>
        pt_projectId r = JUndefined"
    using pipeline_trigger_any_json [of JSON_parse "''{}''" "JObject []"] a1
    by (auto simp: v d)
  have e2: "\<exists>r. validatePipelineTrigger JSON_parse example_blob = Inr r \<and>
        pt_shouldTrigger r \<and>
        pt_triggerType r = JString (code_units ''comment'') \<and>
        pt_resourceType r = JString (code_units ''issue'') \<and>
        pt_resourceId r = JNumber (Finite False 7318349394477056 (- 49)) \<and>
        pt_projectId r = JNumber (Finite False 5910974510923776 (- 47))"
    using pipeline_trigger_any_json [of JSON_parse example_blob "JObject example_blob_members"] a2
    by (auto simp: spec_taken_verbatim_iff m d)
  have e3: "\<exists>r. validatePipelineTrigger JSON_parse ''[1]'' = Inr r \<and>
        pt_shouldTrigger r \<and>
        pt_triggerType r = JString (code_units ''direct'') \<and>
        pt_resourceType r = JUndefined"
    using pipeline_trigger_any_json [of JSON_parse "''[1]''"
        "JArray [JNumber (Finite False 4503599627370496 (- 52))]"] a3
    by auto
  show ?thesis
    using a1 a2 a3 e1 e2 e3 by blast
qed

text \<open>
  The blob \<open>null\<close> is JSON too and does not trigger: reading a property of it is the
  exception that the \<open>catch\<close> answers.
\<close>

lemma pipeline_trigger_null_blob:
  "JSON_parse ''null'' = Some JNull \<and>
   validatePipelineTrigger JSON_parse ''null'' =
     Inr \<lparr>pt_shouldTrigger = False, pt_triggerType = JNull, pt_resourceType = JNull,
          pt_resourceId = JNull, pt_projectId = JNull, pt_triggeredBy = JNull\<rparr>"
  by code_simp

text \<open>
  The parser on numbers and escapes: \<open>0.1\<close> is the double \<open>7205759403792794 * 2 ^ - 56\<close>,
  \<open>1.0\<close> and \<open>1\<close> are one value, \<open>-0\<close> keeps its sign, and the escape of \<open>4e2d\<close> is the
  code unit \<open>20013\<close>.
\<close>

lemma JSON_parse_samples:
  "JSON_parse ''0.1'' = Some (JNumber (Finite False 7205759403792794 (- 56)))"
  "JSON_parse ''1.0'' = JSON_parse ''1''"
  "JSON_parse ''-0'' = Some (JNumber (Finite True 0 0))"
  "JSON_parse ([CHR 0x22, CHR 0x5C] @ ''u4e2d'' @ [CHR 0x22]) = Some (JString [20013])"
  by code_simp+

section \<open>The deny-list of tools\<close>

lemma join_append:
  "xs \<noteq> [] \<Longrightarrow> ys \<noteq> [] \<Longrightarrow> join sep (xs @ ys) = join sep xs @ sep @ join sep ys"
  by (induction sep xs rule: join.induct) (auto simp: neq_Nil_conv)

lemma join_filtered_base:
  "join sep (filter P DISALLOWED_TOOLS) = '''' \<longleftrightarrow> filter P DISALLOWED_TOOLS = []"
  by (auto simp: DISALLOWED_TOOLS_def)

lemma buildDisallowedToolsString_eq:
  "buildDisallowedToolsString customDisallowedTools allowedTools =
     join '','' (spec_resolved_deny_list customDisallowedTools allowedTools)"
proof -
  let ?allowed = "case allowedTools of Some a \<Rightarrow> a | None \<Rightarrow> []"
  let ?custom = "case customDisallowedTools of Some c \<Rightarrow> c | None \<Rightarrow> []"
  let ?kept = "filter (\<lambda>tool. tool \<notin> set ?allowed) DISALLOWED_TOOLS"
  have kept: "(case allowedTools of
         None \<Rightarrow> DISALLOWED_TOOLS
       | Some allowed \<Rightarrow>
           if length allowed > 0
           then filter (\<lambda>tool. tool \<notin> set allowed) DISALLOWED_TOOLS
           else DISALLOWED_TOOLS) = ?kept"
    by (cases allowedTools) auto
  have spec: "spec_resolved_deny_list customDisallowedTools allowedTools = ?kept @ ?custom"
    by (simp add: spec_resolved_deny_list_def DISALLOWED_TOOLS_def)
  have build: "buildDisallowedToolsString customDisallowedTools allowedTools =
      (if ?custom \<noteq> [] then
         (if join '','' ?kept \<noteq> '''' then join '','' ?kept @ '','' @ join '','' ?custom
          else join '','' ?custom)
       else join '','' ?kept)"
    unfolding buildDisallowedToolsString_def kept Let_def
    by (cases customDisallowedTools) auto
  show ?thesis
  proof (cases "?custom = []")
    case True
    then show ?thesis by (simp add: build spec)
  next
    case False
    show ?thesis
    proof (cases "?kept = []")
      case True
      then show ?thesis using False by (simp add: build spec)
    next
      case kept_nonempty: False
      then have "join '','' ?kept \<noteq> ''''"
        using join_filtered_base by blast
      then show ?thesis
        using False kept_nonempty by (simp add: build spec join_append)
    qed
  qed
qed

text \<open>
  Claim C4. \<open>buildDisallowedToolsString\<close> joins with commas the base deny-list
  \<open>WebSearch\<close>, \<open>WebFetch\<close> without the tools the caller allows, followed by the tools the
  caller disallows. With \<open>WebFetch\<close> allowed, the names kept from the base deny-list
  are \<open>WebSearch\<close> alone, the string starts with \<open>WebSearch\<close> whatever the caller
  disallows, and it is \<open>WebSearch\<close> and has no \<open>WebFetch\<close> in it when the caller
  disallows nothing.
\<close>

theorem disallowed_tools_resolution:
  "buildDisallowedToolsString customDisallowedTools allowedTools =
     join '','' (spec_resolved_deny_list customDisallowedTools allowedTools) \<and>
   spec_resolved_deny_list customDisallowedTools (Some [''WebFetch'']) =
     ''WebSearch'' # (case customDisallowedTools of Some c \<Rightarrow> c | None \<Rightarrow> []) \<and>
   prefix ''WebSearch'' (buildDisallowedToolsString customDisallowedTools (Some [''WebFetch''])) \<and>
   buildDisallowedToolsString None (Some [''WebFetch'']) = ''WebSearch'' \<and>
   buildDisallowedToolsString (Some []) (Some [''WebFetch'']) = ''WebSearch'' \<and>
   str_includes (buildDisallowedToolsString None (Some [''WebFetch''])) ''WebSearch'' \<and>
   \<not> str_includes (buildDisallowedToolsString None (Some [''WebFetch''])) ''WebFetch''"
proof -
  have list: "spec_resolved_deny_list customDisallowedTools (Some [''WebFetch'']) =
      ''WebSearch'' # (case customDisallowedTools of Some c \<Rightarrow> c | None \<Rightarrow> [])"
    by (simp add: spec_resolved_deny_list_def)
  have "prefix ''WebSearch'' (join '','' (''WebSearch'' # cs))" for cs
    by (cases cs) simp_all
  then have start: "prefix ''WebSearch''
      (buildDisallowedToolsString customDisallowedTools (Some [''WebFetch'']))"
    by (simp only: buildDisallowedToolsString_eq list)
  have none: "buildDisallowedToolsString None (Some [''WebFetch'']) = ''WebSearch''"
    and empty: "buildDisallowedToolsString (Some []) (Some [''WebFetch'']) = ''WebSearch''"
    by (simp_all add: buildDisallowedToolsString_eq spec_resolved_deny_list_def)
  have yes: "str_includes ''WebSearch'' ''WebSearch''"
    and no: "\<not> str_includes ''WebSearch'' ''WebFetch''"
    by code_simp+
  show ?thesis
    using buildDisallowedToolsString_eq list start none empty yes no by simp
qed

theorem disallowed_tools_resolution_witness:
  "buildDisallowedToolsString (Some [''Bash'', ''WebFetch'']) (Some [''WebSearch'']) =
     ''WebFetch,Bash,WebFetch'' \<and>
   buildDisallowedToolsString (Some [''Bash'']) (Some [''WebFetch'']) = ''WebSearch,Bash'' \<and>
   buildDisallowedToolsString (Some [''Bash'']) (Some [''WebFetch'', ''WebSearch'']) = ''Bash'' \<and>
   buildDisallowedToolsString None None = ''WebSearch,WebFetch''"
  using disallowed_tools_resolution [of "Some [''Bash'', ''WebFetch'']" "Some [''WebSearch'']"]
    disallowed_tools_resolution [of "Some [''Bash'']" "Some [''WebFetch'']"]
    disallowed_tools_resolution [of "Some [''Bash'']" "Some [''WebFetch'', ''WebSearch'']"]
    disallowed_tools_resolution [of None None]
  by (simp add: spec_resolved_deny_list_def)

section \<open>The files fetched for a merge request\<close>

lemma isRelevantFile_iff: "isRelevantFile p \<longleftrightarrow> \<not> spec_excluded_path p"
  by (simp add: isRelevantFile_def excludePatterns_def regex_test_def spec_excluded_path_def
      list_ex_iff Let_def)

lemma relevantDiffs_length: "length (relevantDiffs diffs) \<le> 20"
  by (simp add: relevantDiffs_def maxFiles_def)

lemma relevantDiffs_member:
  assumes "d \<in> set (relevantDiffs diffs)"
  shows "d \<in> set diffs \<and> \<not> deleted_file d \<and> \<not> spec_excluded_path (new_path d)"
proof -
  have "d \<in> set (filter (\<lambda>d. \<not> deleted_file d \<and> isRelevantFile (new_path d)) diffs)"
    using assms in_set_takeD unfolding relevantDiffs_def by fast
  then show ?thesis
    by (simp add: isRelevantFile_iff)
qed

text \<open>The loop keeps, in order, the decoded answer to every call that succeeds.\<close>

lemma fetch_each_eq:
  "fetch_each getFile base64_decode pid branch ds files =
     files @ List.map_filter
       (\<lambda>d. case getFile pid (new_path d) branch of
               Inl error \<Rightarrow> None
             | Inr file \<Rightarrow> Some (decode_content base64_decode file)) ds"
  by (induction ds arbitrary: files) (auto simp: List.map_filter_simps split: sum.splits)

lemma fetch_each_length:
  "length (fetch_each getFile base64_decode pid branch ds files) \<le> length files + length ds"
proof -
  have "length (List.map_filter g ds) \<le> length ds" for g :: "GitLabDiff \<Rightarrow> GitLabFile option"
    by (simp add: List.map_filter_def)
  then show ?thesis
    by (simp add: fetch_each_eq)
qed

lemma fetch_each_member:
  assumes "f \<in> set (fetch_each getFile base64_decode pid branch ds files)"
  shows "f \<in> set files \<or>
         (\<exists>d \<in> set ds. \<exists>raw. getFile pid (new_path d) branch = Inr raw \<and>
            f = decode_content base64_decode raw)"
  using assms
  by (fastforce simp: fetch_each_eq List.map_filter_def split: sum.splits)

text \<open>
  Claim C5, as the code has it. For every list of diffs, the files fetched are at most
  20, and each of them is the answer of the client for the new path of a diff of the
  list that is not marked deleted and whose path matches none of the exclusion
  patterns: a binary extension in any letter case, or, in the letter case written,
  the end \<open>package-lock.json\<close>, \<open>yarn.lock\<close>, \<open>pnpm-lock.yaml\<close>, \<open>Gemfile.lock\<close>,
  \<open>composer.lock\<close>, \<open>.min.js\<close> or \<open>.min.css\<close>, or a segment \<open>node_modules/\<close>,
  \<open>.git/\<close>, \<open>build/\<close> or \<open>dist/\<close>. In particular no such path ends in
  \<open>yarn.lock\<close>, \<open>Gemfile.lock\<close>, \<open>composer.lock\<close> or \<open>package-lock.json\<close>, and none
  contains \<open>node_modules/\<close>. The list is, in the order of the diffs, the decoded
  answers that the client gives for the first 20 diffs that pass.
\<close>

theorem fetched_files_bounded_and_filtered:
  "length (fetchModifiedFiles getFile base64_decode pid diffs branch) \<le> 20 \<and>
   (\<forall>f \<in> set (fetchModifiedFiles getFile base64_decode pid diffs branch).
      \<exists>d \<in> set diffs.
        (\<exists>raw. getFile pid (new_path d) branch = Inr raw \<and>
           f = decode_content base64_decode raw) \<and>
        \<not> deleted_file d \<and>
        \<not> spec_excluded_path (new_path d) \<and>
        \<not> suffix ''yarn.lock'' (new_path d) \<and>
        \<not> suffix ''Gemfile.lock'' (new_path d) \<and>
        \<not> suffix ''composer.lock'' (new_path d) \<and>
        \<not> suffix ''package-lock.json'' (new_path d) \<and>
        \<not> sublist ''node_modules/'' (new_path d)) \<and>
   fetchModifiedFiles getFile base64_decode pid diffs branch =
     List.map_filter
       (\<lambda>d. case getFile pid (new_path d) branch of
               Inl error \<Rightarrow> None
             | Inr file \<Rightarrow> Some (decode_content base64_decode file))
       (take 20 (filter (\<lambda>d. \<not> deleted_file d \<and> \<not> spec_excluded_path (new_path d)) diffs))"
proof -
  have "length (fetchModifiedFiles getFile base64_decode pid diffs branch) \<le>
      length (relevantDiffs diffs)"
    using fetch_each_length [of getFile base64_decode pid branch "relevantDiffs diffs" "[]"]
    by (simp add: fetchModifiedFiles_def)
  then have bound: "length (fetchModifiedFiles getFile base64_decode pid diffs branch) \<le> 20"
    using relevantDiffs_length [of diffs] by linarith
  have each: "\<exists>d \<in> set diffs.
        (\<exists>raw. getFile pid (new_path d) branch = Inr raw \<and>
           f = decode_content base64_decode raw) \<and>
        \<not> deleted_file d \<and>
        \<not> spec_excluded_path (new_path d) \<and>
        \<not> suffix ''yarn.lock'' (new_path d) \<and>
        \<not> suffix ''Gemfile.lock'' (new_path d) \<and>
        \<not> suffix ''composer.lock'' (new_path d) \<and>
        \<not> suffix ''package-lock.json'' (new_path d) \<and>
        \<not> sublist ''node_modules/'' (new_path d)"
    if mem: "f \<in> set (fetchModifiedFiles getFile base64_decode pid diffs branch)" for f
  proof -
    obtain d raw where d: "d \<in> set (relevantDiffs diffs)"
      and raw: "getFile pid (new_path d) branch = Inr raw"
        "f = decode_content base64_decode raw"
      using fetch_each_member [OF mem [unfolded fetchModifiedFiles_def]] by auto
    from relevantDiffs_member [OF d]
    have "d \<in> set diffs" "\<not> deleted_file d" "\<not> spec_excluded_path (new_path d)"
      by simp_all
    moreover from this(3)
    have "\<not> suffix ''yarn.lock'' (new_path d)"
      "\<not> suffix ''Gemfile.lock'' (new_path d)"
      "\<not> suffix ''composer.lock'' (new_path d)"
      "\<not> suffix ''package-lock.json'' (new_path d)"
      "\<not> sublist ''node_modules/'' (new_path d)"
      by (simp_all add: spec_excluded_path_def)
    ultimately show ?thesis
      using raw by blast
  qed
  have list: "fetchModifiedFiles getFile base64_decode pid diffs branch =
     List.map_filter
       (\<lambda>d. case getFile pid (new_path d) branch of
               Inl error \<Rightarrow> None
             | Inr file \<Rightarrow> Some (decode_content base64_decode file))
       (take 20 (filter (\<lambda>d. \<not> deleted_file d \<and> \<not> spec_excluded_path (new_path d)) diffs))"
    by (simp add: fetchModifiedFiles_def fetch_each_eq relevantDiffs_def maxFiles_def
        isRelevantFile_iff)
  show ?thesis
    using bound each list by blast
qed

text \<open>
  Of the seven sample diffs, one is deleted, three are excluded and one fails to load;
  of thirty diffs of a source file, twenty are fetched.
\<close>

theorem fetched_files_bounded_and_filtered_witness:
  "map file_path (fetchModifiedFiles example_getFile example_decode 42 example_diffs ''main'') =
     [''src/app.ts'', ''README.md''] \<and>
   example_file ''src/app.ts'' \<in>
     set (fetchModifiedFiles example_getFile example_decode 42 example_diffs ''main'') \<and>
   (\<exists>d \<in> set example_diffs.
      (\<exists>raw. example_getFile 42 (new_path d) ''main'' = Inr raw \<and>
         example_file ''src/app.ts'' = decode_content example_decode raw) \<and>
      \<not> deleted_file d \<and> \<not> spec_excluded_path (new_path d)) \<and>
   length (fetchModifiedFiles example_getFile example_decode 42
     (replicate 30 (example_diff ''src/app.ts'' False)) ''main'') = 20"
proof -
  have a: "fetchModifiedFiles example_getFile example_decode 42 example_diffs ''main'' =
      [example_file ''src/app.ts'', example_file ''README.md'']"
    by code_simp
  have b: "map file_path [example_file ''src/app.ts'', example_file ''README.md''] =
      [''src/app.ts'', ''README.md'']"
    by (simp add: example_file_def)
  have c: "length (fetchModifiedFiles example_getFile example_decode 42
      (replicate 30 (example_diff ''src/app.ts'' False)) ''main'') = 20"
    by code_simp
  have d: "example_file ''src/app.ts'' \<in>
      set (fetchModifiedFiles example_getFile example_decode 42 example_diffs ''main'')"
    by (simp add: a)
  have each: "\<forall>f \<in> set (fetchModifiedFiles example_getFile example_decode 42 example_diffs ''main'').
      \<exists>d \<in> set example_diffs.
        (\<exists>raw. example_getFile 42 (new_path d) ''main'' = Inr raw \<and>
           f = decode_content example_decode raw) \<and>
        \<not> deleted_file d \<and>
        \<not> spec_excluded_path (new_path d) \<and>
        \<not> suffix ''yarn.lock'' (new_path d) \<and>
        \<not> suffix ''Gemfile.lock'' (new_path d) \<and>
        \<not> suffix ''composer.lock'' (new_path d) \<and>
        \<not> suffix ''package-lock.json'' (new_path d) \<and>
        \<not> sublist ''node_modules/'' (new_path d)"
    by (rule fetched_files_bounded_and_filtered
        [of example_getFile example_decode 42 example_diffs "''main''",
          THEN conjunct2, THEN conjunct1])
  have e: "\<exists>d \<in> set example_diffs.
      (\<exists>raw. example_getFile 42 (new_path d) ''main'' = Inr raw \<and>
         example_file ''src/app.ts'' = decode_content example_decode raw) \<and>
      \<not> deleted_file d \<and> \<not> spec_excluded_path (new_path d)"
    using each [THEN bspec, OF d] by blast
  have m: "map file_path
      (fetchModifiedFiles example_getFile example_decode 42 example_diffs ''main'') =
      [''src/app.ts'', ''README.md'']"
    by (simp only: a b)
  show ?thesis
    using m c d e by (intro conjI)
qed

text \<open>
  Claim C5, as the specification states it, fails: a path that ends in \<open>.lock\<close> and
  matches none of the patterns, such as \<open>Cargo.lock\<close>, is fetched, and the lock files
  that the patterns name are matched in the letter case written only.
\<close>

theorem fetched_files_lock_suffix_counterexample:
  "suffix ''.lock'' ''Cargo.lock'' \<and>
   map file_path
     (fetchModifiedFiles example_getFile example_decode 42
        [example_diff ''Cargo.lock'' False] ''main'') = [''Cargo.lock''] \<and>
   toLowerCase ''vendor/YARN.LOCK'' = ''vendor/yarn.lock'' \<and>
   map file_path
     (fetchModifiedFiles example_getFile example_decode 42
        [example_diff ''vendor/YARN.LOCK'' False] ''main'') = [''vendor/YARN.LOCK'']"
  by code_simp

end
